theory Spec2Isabelle
  imports Complex_Main
begin

section \<open>The Real NVP example notebook\<close>

text \<open>
  The notebook \<^verbatim>\<open>example/real_nvp.ipynb\<close> is a straight-line Python script of four code
  cells around one \<^verbatim>\<open>for\<close> loop. Everything it computes is delegated to torch, numpy,
  matplotlib and normflow. The embedding keeps the script's own control flow, arithmetic
  and variable updates and takes the delegated calls as a parameter:

  \<^item> a value produced by a delegated call (a tensor, a module, an optimizer, a generator
    state, a numpy array of samples) is an opaque value of type \<open>'v\<close>;
  \<^item> the record \<open>framework\<close> gives the result of every delegated call as a function of
    the call's arguments, and a fault schedule: \<open>fault env k = Some e\<close> means that the
    \<open>k\<close>-th delegated call of the run (counted from 0) raises \<open>e\<close>;
  \<^item> the script runs in a state-and-exception monad over a \<open>world\<close>: the two random
    generator states and the trace of delegated calls made so far. A call that draws random
    numbers is given the states of both generators and returns the states it leaves them
    in: which generator it reads is the framework's business, not the notebook's;
  \<^item> the objects that the variables \<^verbatim>\<open>b\<close>, \<^verbatim>\<open>prior\<close> and \<^verbatim>\<open>q0\<close> name are handed to the
    model in line 47 and are held by it from then on, so a call that updates the model in
    place may change them: \<open>fw_held\<close> reads their contents off a model value;
  \<^item> Python floats are modelled by the reals, so rounding is not part of the model.
\<close>

subsection \<open>Values\<close>

datatype error = FrameworkError nat

datatype device = Cpu | Cuda

text \<open>
  A scalar tensor carries its value and the autograd node it was computed by;
  \<^verbatim>\<open>loss.backward()\<close> walks the latter.
\<close>

datatype 'v graph =
    Leaf 'v
  | MeanBackward "'v graph"
  | MulBackward real "'v graph"
  | SubBackward "'v graph" "'v graph"

record 'v scalar =
  item :: real
  grad_fn :: "'v graph"

text \<open>\<^verbatim>\<open>nf.nets.FCN(layers)\<close>: a module object with an identity of its own.\<close>

record 'v FCN =
  net_id :: nat
  net_layers :: "nat list"
  net_init :: 'v

text \<open>\<^verbatim>\<open>nf.flows.MaskedAffineFlow(b, s, t)\<close>\<close>

record 'v MaskedAffineFlow =
  flow_b :: "int list"
  flow_s :: "'v FCN"
  flow_t :: "'v FCN"

text \<open>\<^verbatim>\<open>nf.distributions.TwoModes(loc, scale)\<close>\<close>

record TwoModes =
  modes_loc :: real
  modes_scale :: real

text \<open>\<^verbatim>\<open>nf.distributions.ConstDiagGaussian(loc, scale)\<close>\<close>

record ConstDiagGaussian =
  gauss_loc :: "real list"
  gauss_scale :: "real list"

subsection \<open>Delegated calls\<close>

text \<open>
  One constructor for each delegated call the notebook makes, with the arguments the
  properties below speak about. A chain of calls on one object
  (\<^verbatim>\<open>z.to('cpu').data.numpy()\<close>, \<^verbatim>\<open>torch.zeros(512).to(device)\<close>) and the slicing of
  the arguments of \<^verbatim>\<open>plt.hist2d\<close> count as one call.
\<close>

datatype 'v call =
    Torch_tensor "int list"
  | FCN_new "nat list"
  | Rsub int "int list"
  | MaskedAffineFlow_new "int list"
  | TwoModes_new real real
  | Np_zeros nat
  | Np_ones nat
  | ConstDiagGaussian_new "real list" "real list"
  | NormalizingFlow_new
  | Cuda_is_available
  | Torch_device device
  | Module_to device
  | Linspace real real nat
  | Meshgrid
  | Unsqueeze nat
  | Cat nat
  | Log_prob
  | Torch_exp
  | Plt_figure nat nat
  | Plt_pcolormesh
  | Plt_show
  | Zeros nat device
  | Forward device 'v 'v nat nat
  | To_numpy
  | Plt_hist2d 'v nat
  | Np_array
  | Adam_new real real
  | Zero_grad
  | Mean
  | Np_min "real list"
  | Mul real
  | Sub
  | Backward
  | Step
  | Cuda_manual_seed nat
  | Np_append
  | Plt_plot "real list" string
  | Plt_legend

text \<open>
  The contents of the three objects that the model holds besides its networks: the mask
  tensor \<^verbatim>\<open>b\<close>, the target \<^verbatim>\<open>prior\<close> and the base distribution \<^verbatim>\<open>q0\<close>.
\<close>

record held =
  held_b :: "int list"
  held_prior :: TwoModes
  held_q0 :: ConstDiagGaussian

text \<open>
  The results of the delegated calls. \<open>fw_FCN\<close> and \<open>fw_forward\<close> draw random numbers:
  they take the states of the CPU and of the CUDA generator, in this order, and return the
  new states with their result. \<open>fw_forward\<close> returns \<^verbatim>\<open>(z, log_q, log_p)\<close>;
  \<open>fw_zero_grad\<close>, \<open>fw_backward\<close> and \<open>fw_step\<close> return the model as the call leaves it
  (\<open>fw_step\<close> with the optimizer state first).
\<close>

record 'v framework =
  fault :: "nat \<Rightarrow> error option"
  cuda_is_available :: bool
  fw_FCN :: "nat list \<Rightarrow> 'v \<times> 'v \<Rightarrow> 'v \<times> ('v \<times> 'v)"
  fw_NormalizingFlow :: "TwoModes \<Rightarrow> ConstDiagGaussian \<Rightarrow> 'v MaskedAffineFlow list \<Rightarrow> 'v"
  fw_module_to :: "'v \<Rightarrow> device \<Rightarrow> 'v"
  fw_linspace :: "real \<Rightarrow> real \<Rightarrow> nat \<Rightarrow> 'v"
  fw_meshgrid :: "'v \<Rightarrow> 'v \<Rightarrow> 'v \<times> 'v"
  fw_unsqueeze :: "'v \<Rightarrow> nat \<Rightarrow> 'v"
  fw_cat :: "'v list \<Rightarrow> nat \<Rightarrow> 'v"
  fw_log_prob :: "TwoModes \<Rightarrow> 'v \<Rightarrow> 'v"
  fw_exp :: "'v \<Rightarrow> 'v"
  fw_forward ::
    "'v \<Rightarrow> 'v \<times> 'v \<Rightarrow> real list \<Rightarrow> nat \<Rightarrow> ('v \<times> 'v \<times> 'v) \<times> ('v \<times> 'v)"
  fw_numpy :: "'v \<Rightarrow> 'v"
  fw_Adam :: "'v \<Rightarrow> real \<Rightarrow> real \<Rightarrow> 'v"
  fw_zero_grad :: "'v \<Rightarrow> 'v \<Rightarrow> 'v"
  fw_mean :: "'v \<Rightarrow> real"
  fw_backward :: "'v \<Rightarrow> 'v graph \<Rightarrow> 'v"
  fw_step :: "'v \<Rightarrow> 'v \<Rightarrow> 'v \<times> 'v"
  fw_manual_seed :: "nat \<Rightarrow> 'v"
  fw_held :: "'v \<Rightarrow> held"

subsection \<open>The script monad\<close>

record 'v world =
  cpu_gen :: 'v
  cuda_gen :: 'v
  trace :: "('v call \<times> error option) list"

type_synonym ('a, 'v) script = "'v world \<Rightarrow> (error \<times> 'v world) + ('a \<times> 'v world)"

definition returnS :: "'a \<Rightarrow> ('a, 'v) script" where
  "returnS a w = Inr (a, w)"

definition bindS :: "('a, 'v) script \<Rightarrow> ('a \<Rightarrow> ('b, 'v) script) \<Rightarrow> ('b, 'v) script" where
  "bindS m f w = (case m w of Inl ew \<Rightarrow> Inl ew | Inr (a, w') \<Rightarrow> f a w')"

text \<open>
  A delegated call: it is appended to the trace with its outcome; when the fault schedule
  makes it raise, the exception leaves the script at once (the notebook has no
  \<^verbatim>\<open>try\<close>), otherwise the script goes on with the call's result. The call itself
  leaves the random generators alone: of the calls of the notebook, the constructor of a
  network, the forward pass and \<^verbatim>\<open>torch.cuda.manual_seed\<close> touch them, and their
  scripts say how.
\<close>

definition call :: "'v framework \<Rightarrow> 'v call \<Rightarrow> 'a \<Rightarrow> ('a, 'v) script" where
  "call env c r w =
     (case fault env (length (trace w)) of
        Some e \<Rightarrow> Inl (e, w\<lparr>trace := trace w @ [(c, Some e)]\<rparr>)
      | None \<Rightarrow> Inr (r, w\<lparr>trace := trace w @ [(c, None)]\<rparr>))"

definition gets :: "('v world \<Rightarrow> 'a) \<Rightarrow> ('a, 'v) script" where
  "gets f w = Inr (f w, w)"

definition modify :: "('v world \<Rightarrow> 'v world) \<Rightarrow> (unit, 'v) script" where
  "modify f w = Inr ((), f w)"

text \<open>The states of the CPU and of the CUDA generator, in this order.\<close>

definition generators :: "'v world \<Rightarrow> 'v \<times> 'v" where
  "generators w = (cpu_gen w, cuda_gen w)"

definition set_generators :: "'v \<times> 'v \<Rightarrow> 'v world \<Rightarrow> 'v world" where
  "set_generators gs w = w\<lparr>cpu_gen := fst gs, cuda_gen := snd gs\<rparr>"

text \<open>\<^verbatim>\<open>for i in range(n): body\<close>, with the loop-carried variables as \<open>a\<close>.\<close>

fun for_loop :: "(nat \<Rightarrow> 'a \<Rightarrow> ('a, 'v) script) \<Rightarrow> nat list \<Rightarrow> 'a \<Rightarrow> ('a, 'v) script" where
  "for_loop body [] a = returnS a"
| "for_loop body (i # is) a = bindS (body i a) (for_loop body is)"

subsection \<open>Cell 2: model assembly\<close>

definition K :: nat where
  "K = 8"

text \<open>
  \<^verbatim>\<open>nf.nets.FCN(layers)\<close> draws the initial weights of the network. The identity of the
  new module is the position of its constructor call in the trace.
\<close>

definition new_FCN :: "'v framework \<Rightarrow> nat list \<Rightarrow> ('v FCN, 'v) script" where
  "new_FCN env layers =
     bindS (gets generators) (\<lambda>gens.
     bindS (gets (\<lambda>w. length (trace w))) (\<lambda>ident.
     bindS (call env (FCN_new layers)
              \<lparr>net_id = ident, net_layers = layers, net_init = fst (fw_FCN env layers gens)\<rparr>) (\<lambda>n.
     bindS (modify (set_generators (snd (fw_FCN env layers gens)))) (\<lambda>_.
     returnS n))))"

text \<open>
  The body of \<^verbatim>\<open>for i in range(K)\<close>; \<^verbatim>\<open>flows += [...]\<close> appends. \<^verbatim>\<open>1 - b\<close> is
  elementwise.
\<close>

definition flows_body ::
  "'v framework \<Rightarrow> int list \<Rightarrow> nat \<Rightarrow> 'v MaskedAffineFlow list \<Rightarrow> ('v MaskedAffineFlow list, 'v) script"
where
  "flows_body env b0 i flows =
     bindS (new_FCN env [2, 8, 2]) (\<lambda>s.
     bindS (new_FCN env [2, 8, 2]) (\<lambda>t.
       if i mod 2 = 0 then
         bindS (call env (MaskedAffineFlow_new b0) \<lparr>flow_b = b0, flow_s = s, flow_t = t\<rparr>) (\<lambda>f.
         returnS (flows @ [f]))
       else
         bindS (call env (Rsub 1 b0) (map (\<lambda>v. 1 - v) b0)) (\<lambda>nb.
         bindS (call env (MaskedAffineFlow_new nb) \<lparr>flow_b = nb, flow_s = s, flow_t = t\<rparr>) (\<lambda>f.
         returnS (flows @ [f])))))"

definition cell2 ::
  "'v framework \<Rightarrow>
   (int list \<times> 'v MaskedAffineFlow list \<times> TwoModes \<times> ConstDiagGaussian \<times> 'v \<times> device, 'v) script"
where
  "cell2 env =
     bindS (call env (Torch_tensor [0, 1]) [0, 1]) (\<lambda>b0.
     bindS (for_loop (flows_body env b0) [0..<K] []) (\<lambda>flows.
     bindS (call env (TwoModes_new 2 (1 / 10)) \<lparr>modes_loc = 2, modes_scale = 1 / 10\<rparr>) (\<lambda>prior.
     bindS (call env (Np_zeros 2) (replicate 2 0)) (\<lambda>zs.
     bindS (call env (Np_ones 2) (replicate 2 1)) (\<lambda>os.
     bindS (call env (ConstDiagGaussian_new zs os) \<lparr>gauss_loc = zs, gauss_scale = os\<rparr>) (\<lambda>q0.
     bindS (call env NormalizingFlow_new (fw_NormalizingFlow env prior q0 flows)) (\<lambda>nfm.
     let enable_cuda = True in
     bindS (call env Cuda_is_available (cuda_is_available env)) (\<lambda>avail.
     bindS (call env (Torch_device (if avail \<and> enable_cuda then Cuda else Cpu))
              (if avail \<and> enable_cuda then Cuda else Cpu)) (\<lambda>dev.
     bindS (call env (Module_to dev) (fw_module_to env nfm dev)) (\<lambda>nfm1.
     returnS (b0, flows, prior, q0, nfm1, dev)))))))))))"

subsection \<open>Sampling through the flow\<close>

text \<open>
  \<^verbatim>\<open>nfm(x, num_samples)\<close> returns \<^verbatim>\<open>(z, log_q, log_p)\<close>. It draws its noise from the random
  generators and leaves them advanced; the trace records the states it found them in. The
  forward pass reads the model and returns no new model value.
\<close>

definition nfm_forward ::
  "'v framework \<Rightarrow> device \<Rightarrow> 'v \<Rightarrow> real list \<Rightarrow> nat \<Rightarrow> ('v \<times> 'v \<times> 'v, 'v) script"
where
  "nfm_forward env dev nfm x0 n =
     bindS (gets generators) (\<lambda>gens.
     bindS (call env (Forward dev (fst gens) (snd gens) (length x0) n)
              (fst (fw_forward env nfm gens x0 n))) (\<lambda>r.
     bindS (modify (set_generators (snd (fw_forward env nfm gens x0 n)))) (\<lambda>_.
     returnS r)))"

subsection \<open>Cell 3: the plots before training\<close>

definition grid_size :: nat where
  "grid_size = 200"

definition cell3 :: "'v framework \<Rightarrow> TwoModes \<Rightarrow> 'v \<Rightarrow> device \<Rightarrow> ('v \<times> 'v, 'v) script" where
  "cell3 env prior nfm dev =
     bindS (call env (Linspace (- 3) 3 grid_size) (fw_linspace env (- 3) 3 grid_size)) (\<lambda>l1.
     bindS (call env (Linspace (- 3) 3 grid_size) (fw_linspace env (- 3) 3 grid_size)) (\<lambda>l2.
     bindS (call env Meshgrid (fw_meshgrid env l1 l2)) (\<lambda>(xx, yy).
     bindS (call env (Unsqueeze 2) (fw_unsqueeze env xx 2)) (\<lambda>xx2.
     bindS (call env (Unsqueeze 2) (fw_unsqueeze env yy 2)) (\<lambda>yy2.
     bindS (call env (Cat 2) (fw_cat env [xx2, yy2] 2)) (\<lambda>z0.
     bindS (call env Log_prob (fw_log_prob env prior z0)) (\<lambda>log_prob.
     bindS (call env Torch_exp (fw_exp env log_prob)) (\<lambda>prob.
     bindS (call env (Plt_figure 10 10) ()) (\<lambda>_.
     bindS (call env Plt_pcolormesh ()) (\<lambda>_.
     bindS (call env Plt_show ()) (\<lambda>_.
     bindS (call env (Zeros 512 dev) (replicate 512 0)) (\<lambda>x0.
     bindS (nfm_forward env dev nfm x0 512) (\<lambda>(z1, _, _).
     bindS (call env To_numpy (fw_numpy env z1)) (\<lambda>z_np.
     bindS (call env (Plt_figure 10 10) ()) (\<lambda>_.
     bindS (call env (Plt_hist2d z_np grid_size) ()) (\<lambda>_.
     bindS (call env Plt_show ()) (\<lambda>_.
     returnS (z1, z_np))))))))))))))))))"

subsection \<open>Cell 4: training\<close>

definition max_iter :: nat where
  "max_iter = 20000"

definition batch_size :: nat where
  "batch_size = 128"

definition num_samples :: nat where
  "num_samples = 128"

definition anneal_iter :: nat where
  "anneal_iter = 10000"

definition annealing :: bool where
  "annealing = True"

definition show_iter :: nat where
  "show_iter = 500"

text \<open>
  The variables the loop carries, and the ones the frame property speaks about. A variable
  first assigned inside the loop is \<open>None\<close> before the first iteration. \<open>var_b\<close>,
  \<open>var_prior\<close>, \<open>var_q0\<close> and \<open>var_x\<close> are what the script bound the four variables to;
  what the mask, the target and the base distribution contain while the model holds and
  updates them is \<open>fw_held env (var_nfm g)\<close>. The variables
  that no later statement reads (\<^verbatim>\<open>K\<close>, \<^verbatim>\<open>flows\<close>, \<^verbatim>\<open>s\<close>, \<^verbatim>\<open>t\<close>, the grid of cell 3)
  are not carried.
\<close>

record 'v globals =
  var_b :: "int list"
  var_prior :: TwoModes
  var_q0 :: ConstDiagGaussian
  var_device :: device
  var_x :: "real list"
  var_nfm :: 'v
  var_optimizer :: 'v
  var_loss_hist :: "real list"
  var_log_q_hist :: "real list"
  var_log_p_hist :: "real list"
  var_z :: 'v
  var_z_np :: 'v
  var_it :: "nat option"
  var_log_q :: "'v option"
  var_log_p :: "'v option"
  var_mean_log_q :: "'v scalar option"
  var_mean_log_p :: "'v scalar option"
  var_loss :: "'v scalar option"

text \<open>\<^verbatim>\<open>torch.mean(t)\<close>, \<^verbatim>\<open>c * a\<close> and \<^verbatim>\<open>a - b\<close> on scalar tensors.\<close>

definition torch_mean :: "'v framework \<Rightarrow> 'v \<Rightarrow> 'v scalar" where
  "torch_mean env t = \<lparr>item = fw_mean env t, grad_fn = MeanBackward (Leaf t)\<rparr>"

definition rmul :: "real \<Rightarrow> 'v scalar \<Rightarrow> 'v scalar" where
  "rmul c a = \<lparr>item = c * item a, grad_fn = MulBackward c (grad_fn a)\<rparr>"

definition sub :: "'v scalar \<Rightarrow> 'v scalar \<Rightarrow> 'v scalar" where
  "sub a c = \<lparr>item = item a - item c, grad_fn = SubBackward (grad_fn a) (grad_fn c)\<rparr>"

text \<open>\<^verbatim>\<open>np.min\<close> of the non-empty list \<open>x # xs\<close>.\<close>

definition np_min :: "real \<Rightarrow> real list \<Rightarrow> real" where
  "np_min x xs = fold min xs x"

text \<open>
  The weight of line 111, \<^verbatim>\<open>np.min([1., 0.01 + it / anneal_iter])\<close>;
  \<^verbatim>\<open>it / anneal_iter\<close> is Python's true division.
\<close>

definition anneal_weight :: "nat \<Rightarrow> real" where
  "anneal_weight it = np_min 1 [1 / 100 + real it / real anneal_iter]"

text \<open>Lines 110 to 113, with the flag \<^verbatim>\<open>annealing\<close> as a parameter.\<close>

definition compute_loss ::
  "'v framework \<Rightarrow> bool \<Rightarrow> nat \<Rightarrow> 'v scalar \<Rightarrow> 'v scalar \<Rightarrow> ('v scalar, 'v) script"
where
  "compute_loss env ann it mean_log_q mean_log_p =
     (if ann then
        bindS (call env (Np_min [1, 1 / 100 + real it / real anneal_iter]) (anneal_weight it)) (\<lambda>c.
        bindS (call env (Mul c) (rmul c mean_log_p)) (\<lambda>cp.
        call env Sub (sub mean_log_q cp)))
      else call env Sub (sub mean_log_q mean_log_p))"

text \<open>
  Lines 119 to 129: the body of \<^verbatim>\<open>if (it + 1) % show_iter == 0\<close>.
  \<^verbatim>\<open>torch.cuda.manual_seed(0)\<close> puts the CUDA generator into the state that the seed
  determines. Without CUDA torch ignores the call; the model sets the CUDA generator all
  the same, which a run on the CPU never reads.
\<close>

definition checkpoint ::
  "'v framework \<Rightarrow> 'v globals \<Rightarrow> 'v scalar \<Rightarrow> 'v scalar \<Rightarrow> 'v scalar \<Rightarrow> ('v globals, 'v) script"
where
  "checkpoint env g loss mean_log_q mean_log_p =
     bindS (call env (Cuda_manual_seed 0) ()) (\<lambda>_.
     bindS (modify (\<lambda>w. w\<lparr>cuda_gen := fw_manual_seed env 0\<rparr>)) (\<lambda>_.
     bindS (call env (Zeros 512 (var_device g)) (replicate 512 0)) (\<lambda>x0.
     bindS (nfm_forward env (var_device g) (var_nfm g) x0 512) (\<lambda>(z1, _, _).
     bindS (call env To_numpy (fw_numpy env z1)) (\<lambda>z_np.
     bindS (call env (Plt_figure 10 10) ()) (\<lambda>_.
     bindS (call env (Plt_hist2d z_np grid_size) ()) (\<lambda>_.
     bindS (call env Plt_show ()) (\<lambda>_.
     bindS (call env To_numpy (item loss)) (\<lambda>v1.
     bindS (call env Np_append (var_loss_hist g @ [v1])) (\<lambda>h1.
     bindS (call env To_numpy (item mean_log_q)) (\<lambda>v2.
     bindS (call env Np_append (var_log_q_hist g @ [v2])) (\<lambda>h2.
     bindS (call env To_numpy (item mean_log_p)) (\<lambda>v3.
     bindS (call env Np_append (var_log_p_hist g @ [v3])) (\<lambda>h3.
     returnS (g\<lparr>var_z := z1, var_z_np := z_np, var_loss_hist := h1,
                 var_log_q_hist := h2, var_log_p_hist := h3\<rparr>)))))))))))))))"

text \<open>
  Lines 106 to 129: the body of \<^verbatim>\<open>for it in tqdm(range(max_iter))\<close>. The progress bar
  \<^verbatim>\<open>tqdm\<close> hands the numbers of the range on unchanged and is left out.
\<close>

definition train_iter :: "'v framework \<Rightarrow> nat \<Rightarrow> 'v globals \<Rightarrow> ('v globals, 'v) script" where
  "train_iter env it g =
     bindS (call env Zero_grad (fw_zero_grad env (var_optimizer g) (var_nfm g))) (\<lambda>m1.
     bindS (nfm_forward env (var_device g) m1 (var_x g) num_samples) (\<lambda>(_, log_q, log_p).
     bindS (call env Mean (torch_mean env log_q)) (\<lambda>mean_log_q.
     bindS (call env Mean (torch_mean env log_p)) (\<lambda>mean_log_p.
     bindS (compute_loss env annealing it mean_log_q mean_log_p) (\<lambda>loss.
     bindS (call env Backward (fw_backward env m1 (grad_fn loss))) (\<lambda>m2.
     bindS (call env Step (fw_step env (var_optimizer g) m2)) (\<lambda>(opt1, m3).
     let g1 = g\<lparr>var_it := Some it, var_nfm := m3, var_optimizer := opt1,
                 var_log_q := Some log_q, var_log_p := Some log_p,
                 var_mean_log_q := Some mean_log_q, var_mean_log_p := Some mean_log_p,
                 var_loss := Some loss\<rparr>
     in if (it + 1) mod show_iter = 0
        then checkpoint env g1 loss mean_log_q mean_log_p
        else returnS g1)))))))"

definition train_loop :: "'v framework \<Rightarrow> nat \<Rightarrow> 'v globals \<Rightarrow> ('v globals, 'v) script" where
  "train_loop env n g = for_loop (train_iter env) [0..<n] g"

text \<open>
  Lines 99 to 104: the variables set up before the loop. \<^verbatim>\<open>nfm.parameters()\<close> and the
  constructor \<^verbatim>\<open>torch.optim.Adam\<close> with \<^verbatim>\<open>lr=1e-3, weight_decay=1e-3\<close> count as one call.
\<close>

definition train_setup ::
  "'v framework \<Rightarrow> int list \<Rightarrow> TwoModes \<Rightarrow> ConstDiagGaussian \<Rightarrow> 'v \<Rightarrow> device \<Rightarrow> 'v \<Rightarrow> 'v \<Rightarrow>
   ('v globals, 'v) script"
where
  "train_setup env b0 prior q0 nfm dev z0 z_np0 =
     bindS (call env Np_array []) (\<lambda>loss_hist.
     bindS (call env Np_array []) (\<lambda>log_q_hist.
     bindS (call env Np_array []) (\<lambda>log_p_hist.
     bindS (call env (Zeros batch_size dev) (replicate batch_size 0)) (\<lambda>x0.
     bindS (call env (Adam_new (1 / 1000) (1 / 1000)) (fw_Adam env nfm (1 / 1000) (1 / 1000))) (\<lambda>opt.
     returnS \<lparr>var_b = b0, var_prior = prior, var_q0 = q0, var_device = dev, var_x = x0,
               var_nfm = nfm, var_optimizer = opt, var_loss_hist = loss_hist,
               var_log_q_hist = log_q_hist, var_log_p_hist = log_p_hist,
               var_z = z0, var_z_np = z_np0, var_it = None, var_log_q = None,
               var_log_p = None, var_mean_log_q = None, var_mean_log_p = None,
               var_loss = None\<rparr>)))))"

text \<open>Lines 131 to 136: the plot of the three histories.\<close>

definition plot_history :: "'v framework \<Rightarrow> 'v globals \<Rightarrow> ('v globals, 'v) script" where
  "plot_history env g =
     bindS (call env (Plt_figure 10 10) ()) (\<lambda>_.
     bindS (call env (Plt_plot (var_loss_hist g) ''loss'') ()) (\<lambda>_.
     bindS (call env (Plt_plot (var_log_q_hist g) ''log_q'') ()) (\<lambda>_.
     bindS (call env (Plt_plot (var_log_p_hist g) ''log_p'') ()) (\<lambda>_.
     bindS (call env Plt_legend ()) (\<lambda>_.
     bindS (call env Plt_show ()) (\<lambda>_.
     returnS g))))))"

definition cell4 ::
  "'v framework \<Rightarrow> int list \<Rightarrow> TwoModes \<Rightarrow> ConstDiagGaussian \<Rightarrow> 'v \<Rightarrow> device \<Rightarrow> 'v \<Rightarrow> 'v \<Rightarrow>
   ('v globals, 'v) script"
where
  "cell4 env b0 prior q0 nfm dev z0 z_np0 =
     bindS (train_setup env b0 prior q0 nfm dev z0 z_np0) (\<lambda>g0.
     bindS (train_loop env max_iter g0) (\<lambda>g.
     plot_history env g))"

subsection \<open>Cell 5: the plot after training\<close>

text \<open>
  Line 146, the call of \<^verbatim>\<open>nfm\<close>, is commented out in the notebook: the cell reads the
  variable \<^verbatim>\<open>z\<close> as the cells before left it.
\<close>

definition cell5 :: "'v framework \<Rightarrow> 'v globals \<Rightarrow> ('v globals, 'v) script" where
  "cell5 env g =
     bindS (call env To_numpy (fw_numpy env (var_z g))) (\<lambda>z_np.
     bindS (call env (Plt_figure 10 10) ()) (\<lambda>_.
     bindS (call env (Plt_hist2d z_np grid_size) ()) (\<lambda>_.
     bindS (call env Plt_show ()) (\<lambda>_.
     returnS (g\<lparr>var_z_np := z_np\<rparr>)))))"

subsection \<open>The notebook, run from the top\<close>

definition notebook :: "'v framework \<Rightarrow> ('v globals, 'v) script" where
  "notebook env =
     bindS (cell2 env) (\<lambda>(b0, flows, prior, q0, nfm, dev).
     bindS (cell3 env prior nfm dev) (\<lambda>(z0, z_np0).
     bindS (cell4 env b0 prior q0 nfm dev z0 z_np0) (\<lambda>g.
     cell5 env g)))"

definition start :: "'v \<Rightarrow> 'v \<Rightarrow> 'v world" where
  "start g_cpu g_cuda = \<lparr>cpu_gen = g_cpu, cuda_gen = g_cuda, trace = []\<rparr>"

section \<open>Runs, traces and what the properties speak about\<close>

text \<open>The value a run returns (\<open>None\<close> when an exception left the script) and its last world.\<close>

fun value_of :: "(error \<times> 'v world) + ('a \<times> 'v world) \<Rightarrow> 'a option" where
  "value_of (Inl (e, w)) = None"
| "value_of (Inr (a, w)) = Some a"

fun world_of :: "(error \<times> 'v world) + ('a \<times> 'v world) \<Rightarrow> 'v world" where
  "world_of (Inl (e, w)) = w"
| "world_of (Inr (a, w)) = w"

fun raised :: "(error \<times> 'v world) + ('a \<times> 'v world) \<Rightarrow> error option" where
  "raised (Inl (e, w)) = Some e"
| "raised (Inr (a, w)) = None"

text \<open>The calls a script adds to the trace of the world it starts in.\<close>

definition new_calls :: "'v world \<Rightarrow> 'v world \<Rightarrow> ('v call \<times> error option) list" where
  "new_calls w w' = drop (length (trace w)) (trace w')"

definition ok_calls :: "'v call list \<Rightarrow> ('v call \<times> error option) list" where
  "ok_calls cs = map (\<lambda>c. (c, None)) cs"

text \<open>
  A script is \<open>logged\<close> when each of its runs only appends to the trace, the appended
  outcomes are the ones the fault schedule gives, and the run stops with an exception
  exactly at the first call that raises.
\<close>

definition logged :: "'v framework \<Rightarrow> ('a, 'v) script \<Rightarrow> bool" where
  "logged env m \<longleftrightarrow>
     (\<forall>w. case m w of
        Inl (e, w') \<Rightarrow>
          (\<exists>cs c. trace w' = trace w @ ok_calls cs @ [(c, Some e)] \<and>
             (\<forall>i<length cs. fault env (length (trace w) + i) = None) \<and>
             fault env (length (trace w) + length cs) = Some e)
      | Inr (a, w') \<Rightarrow>
          (\<exists>cs. trace w' = trace w @ ok_calls cs \<and>
             (\<forall>i<length cs. fault env (length (trace w) + i) = None)))"

text \<open>A call without the opaque values it carries.\<close>

definition shape :: "'v call \<Rightarrow> unit call" where
  "shape = map_call (\<lambda>_. ())"




definition setup_calls :: "device \<Rightarrow> unit call list" where
  "setup_calls dev =
     [Np_array, Np_array, Np_array, Zeros batch_size dev, Adam_new (1 / 1000) (1 / 1000)]"


text \<open>The reseedings of the CUDA generator and the draws of 512 samples.\<close>

definition reseed_or_draw :: "'v call \<Rightarrow> bool" where
  "reseed_or_draw c =
     (case c of Cuda_manual_seed s \<Rightarrow> True | Forward dev cpu cuda k n \<Rightarrow> n = 512
      | _ \<Rightarrow> False)"

definition is_forward :: "'v call \<Rightarrow> bool" where
  "is_forward c = (case c of Forward dev cpu cuda k n \<Rightarrow> True | _ \<Rightarrow> False)"

text \<open>
  The samples \<^verbatim>\<open>z\<close> that \<^verbatim>\<open>nfm(torch.zeros(512), num_samples=512)\<close> draws when it finds
  the generators in the states \<open>gens\<close>.
\<close>

definition draw :: "'v framework \<Rightarrow> 'v \<Rightarrow> 'v \<times> 'v \<Rightarrow> 'v" where
  "draw env nfm gens = fst (fst (fw_forward env nfm gens (replicate 512 0) 512))"

text \<open>The state of the CUDA generator that a draw of 512 samples finds.\<close>

definition cuda_state_at_draw :: "'v call \<Rightarrow> 'v list" where
  "cuda_state_at_draw c =
     (case c of Forward dev cpu cuda k n \<Rightarrow> if n = 512 then [cuda] else [] | _ \<Rightarrow> [])"

text \<open>
  What "on a CUDA device" says of the framework: the forward pass of the model draws from
  the CUDA generator, so its samples do not depend on the state of the CPU generator.
\<close>

definition samples_from_cuda :: "'v framework \<Rightarrow> bool" where
  "samples_from_cuda env \<longleftrightarrow>
     (\<forall>m c c' g x0 n.
        fst (fw_forward env m (c, g) x0 n) = fst (fw_forward env m (c', g) x0 n))"

text \<open>
  The three calls of an iteration that update the model in place leave the mask, the target
  and the base distribution that it holds as they are.
\<close>

definition keeps_held :: "'v framework \<Rightarrow> bool" where
  "keeps_held env \<longleftrightarrow>
     (\<forall>opt m. fw_held env (fw_zero_grad env opt m) = fw_held env m) \<and>
     (\<forall>m gr. fw_held env (fw_backward env m gr) = fw_held env m) \<and>
     (\<forall>opt m. fw_held env (snd (fw_step env opt m)) = fw_held env m)"

text \<open>
  \<open>v\<close> is a convex combination of \<open>x\<close> and \<open>y\<close>: it is \<open>a * x + (1 - a) * y\<close> for a
  weight \<open>a\<close> between 0 and 1, that is, it lies between the two.
\<close>

definition convex_combination :: "real \<Rightarrow> real \<Rightarrow> real \<Rightarrow> bool" where
  "convex_combination v x y \<longleftrightarrow> min x y \<le> v \<and> v \<le> max x y"

text \<open>The identities of the two networks of a layer.\<close>

definition flow_nets :: "'v MaskedAffineFlow \<Rightarrow> nat list" where
  "flow_nets f = [net_id (flow_s f), net_id (flow_t f)]"

text \<open>
  What holds of the list \<^verbatim>\<open>flows\<close> after \<open>i\<close> iterations of the loop of cell 2: it has
  \<open>i\<close> layers, layer \<open>j\<close> has the mask \<open>b\<close> for even \<open>j\<close> and \<open>1 - b\<close> for odd \<open>j\<close> and
  two networks of sizes \<open>[2, 8, 2]\<close>, and the networks of all layers are different objects,
  each constructed by a call of the trace.
\<close>

definition flows_inv :: "int list \<Rightarrow> nat \<Rightarrow> 'v MaskedAffineFlow list \<Rightarrow> 'v world \<Rightarrow> bool" where
  "flows_inv b0 i flows u \<longleftrightarrow>
     length flows = i \<and>
     (\<forall>j<i. flow_b (flows ! j) = (if j mod 2 = 0 then b0 else map (\<lambda>v. 1 - v) b0) \<and>
        net_layers (flow_s (flows ! j)) = [2, 8, 2] \<and> net_layers (flow_t (flows ! j)) = [2, 8, 2]) \<and>
     (\<forall>k\<in>set (concat (map flow_nets flows)). k < length (trace u)) \<and>
     distinct (concat (map flow_nets flows))"

subsection \<open>The base distribution\<close>

text \<open>
  Modelled from the spec: the class \<^verbatim>\<open>ConstDiagGaussian\<close> of normflow is not part of the
  notebook. The specification calls the base distribution a diagonal Gaussian that
  supports sampling and log-density evaluation: a sample is \<open>loc + scale * eps\<close> for
  standard normal noise \<open>eps\<close>, and the log-density is that of independent normal
  coordinates with means \<open>loc\<close> and standard deviations \<open>scale\<close>.
\<close>

definition gauss_sample :: "ConstDiagGaussian \<Rightarrow> real list \<Rightarrow> real list" where
  "gauss_sample d eps =
     map (\<lambda>(l, s, e). l + s * e) (zip (gauss_loc d) (zip (gauss_scale d) eps))"

definition gauss_log_prob :: "ConstDiagGaussian \<Rightarrow> real list \<Rightarrow> real" where
  "gauss_log_prob d z =
     - (real (length (gauss_loc d)) / 2) * ln (2 * pi)
     - sum_list (map ln (gauss_scale d))
     - sum_list (map (\<lambda>(l, s, x). ((x - l) / s)\<^sup>2 / 2) (zip (gauss_loc d) (zip (gauss_scale d) z)))"

subsection \<open>A concrete framework\<close>

text \<open>
  A small framework over the naturals, to run the script on: the model is the number of
  optimizer steps taken so far, a generator state is a counter, a network is initialised
  from the CPU generator, and the samples a forward pass returns are the sum of the model
  and the state of the CUDA generator.
\<close>

definition toy :: "nat framework" where
  "toy = \<lparr>fault = (\<lambda>k. None),
          cuda_is_available = True,
          fw_FCN = (\<lambda>layers gens. (fst gens, (fst gens + 1, snd gens))),
          fw_NormalizingFlow = (\<lambda>prior q0 flows. 0),
          fw_module_to = (\<lambda>m dev. m),
          fw_linspace = (\<lambda>lo hi n. n),
          fw_meshgrid = (\<lambda>t u. (t, u)),
          fw_unsqueeze = (\<lambda>t d. t),
          fw_cat = (\<lambda>ts d. sum_list ts),
          fw_log_prob = (\<lambda>prior t. t),
          fw_exp = (\<lambda>t. t),
          fw_forward = (\<lambda>m gens x0 n. ((m + snd gens, m, snd gens), (fst gens, snd gens + 1))),
          fw_numpy = (\<lambda>t. t),
          fw_Adam = (\<lambda>m lr wd. 0),
          fw_zero_grad = (\<lambda>opt m. m),
          fw_mean = (\<lambda>t. real t),
          fw_backward = (\<lambda>m gr. m),
          fw_step = (\<lambda>opt m. (opt + 1, m + 1)),
          fw_manual_seed = (\<lambda>seed. 1000 + seed),
          fw_held = (\<lambda>m. \<lparr>held_b = [0, 1],
                           held_prior = \<lparr>modes_loc = 2, modes_scale = 1 / 10\<rparr>,
                           held_q0 = \<lparr>gauss_loc = [0, 0], gauss_scale = [1, 1]\<rparr>\<rparr>)\<rparr>"

text \<open>The same framework with the \<open>k\<close>-th call raising.\<close>

definition toy_raising :: "nat \<Rightarrow> nat framework" where
  "toy_raising k = toy\<lparr>fault := (\<lambda>i. if i = k then Some (FrameworkError 1) else None)\<rparr>"

text \<open>The same framework on a machine without CUDA.\<close>

definition toy_without_cuda :: "nat framework" where
  "toy_without_cuda = toy\<lparr>cuda_is_available := False\<rparr>"

text \<open>
  A framework whose optimizer step does change the base distribution it holds: the first
  coordinate of the mean follows the number of steps.
\<close>

definition toy_drifting :: "nat framework" where
  "toy_drifting =
     toy\<lparr>fw_held := (\<lambda>m. \<lparr>held_b = [0, 1],
                            held_prior = \<lparr>modes_loc = 2, modes_scale = 1 / 10\<rparr>,
                            held_q0 = \<lparr>gauss_loc = [real m, 0], gauss_scale = [1, 1]\<rparr>\<rparr>)\<rparr>"

definition toy_globals :: "nat globals" where
  "toy_globals =
     \<lparr>var_b = [0, 1], var_prior = \<lparr>modes_loc = 2, modes_scale = 1 / 10\<rparr>,
      var_q0 = \<lparr>gauss_loc = [0, 0], gauss_scale = [1, 1]\<rparr>, var_device = Cuda,
      var_x = replicate batch_size 0, var_nfm = 7, var_optimizer = 0, var_loss_hist = [],
      var_log_q_hist = [], var_log_p_hist = [], var_z = 3, var_z_np = 3, var_it = None,
      var_log_q = None, var_log_p = None, var_mean_log_q = None, var_mean_log_p = None,
      var_loss = None\<rparr>"

section \<open>Basic facts\<close>

subsection \<open>The monad\<close>

lemma returnS_Inr [simp]: "returnS a w = Inr r \<longleftrightarrow> r = (a, w)"
  by (auto simp: returnS_def)

lemma returnS_Inl [simp]: "returnS a w \<noteq> Inl r"
  by (simp add: returnS_def)

lemma gets_Inr [simp]: "gets f w = Inr r \<longleftrightarrow> r = (f w, w)"
  by (auto simp: gets_def)

lemma modify_Inr [simp]: "modify f w = Inr r \<longleftrightarrow> r = ((), f w)"
  by (auto simp: modify_def)

lemma call_Inr [simp]:
  "call env c r w = Inr res \<longleftrightarrow>
     fault env (length (trace w)) = None \<and> res = (r, w\<lparr>trace := trace w @ [(c, None)]\<rparr>)"
  by (auto simp: call_def split: option.splits)

lemma bindS_Inr [simp]:
  "bindS m f w = Inr res \<longleftrightarrow> (\<exists>a w1. m w = Inr (a, w1) \<and> f a w1 = Inr res)"
  by (auto simp: bindS_def split: sum.splits)

lemma trace_set_generators [simp]: "trace (set_generators gs w) = trace w"
  by (simp add: set_generators_def)

lemma generators_trace_update [simp]: "generators (w\<lparr>trace := t\<rparr>) = generators w"
  by (simp add: generators_def)

lemma generators_set_generators [simp]: "generators (set_generators gs w) = gs"
  by (simp add: generators_def set_generators_def)

lemma generators_cuda_gen_update [simp]:
  "generators (w\<lparr>cuda_gen := g\<rparr>) = (fst (generators w), g)"
  by (simp add: generators_def)

lemma ok_calls_simps [simp]:
  "ok_calls [] = []" "ok_calls (c # cs) = (c, None) # ok_calls cs"
  "ok_calls (cs @ ds) = ok_calls cs @ ok_calls ds" "length (ok_calls cs) = length cs"
  by (simp_all add: ok_calls_def)

lemma logged_returnS: "logged env (returnS a)"
  unfolding logged_def returnS_def by (auto intro: exI [of _ "[]"])

lemma logged_gets: "logged env (gets f)"
  unfolding logged_def gets_def by (auto intro: exI [of _ "[]"])

lemma logged_modify: "(\<And>w. trace (f w) = trace w) \<Longrightarrow> logged env (modify f)"
  unfolding logged_def modify_def by (auto intro: exI [of _ "[]"])

lemma logged_call: "logged env (call env c r)"
  unfolding logged_def call_def
  apply (auto split: option.splits)
   apply (rule exI [of _ "[c]"], simp)
  apply (rule exI [of _ "[]"], simp)
  done

lemma logged_bindS:
  assumes m: "logged env m" and f: "\<And>a. logged env (f a)"
  shows "logged env (bindS m f)"
  unfolding logged_def
proof
  fix w
  show "case bindS m f w of
        Inl (e, w') \<Rightarrow>
          (\<exists>cs c. trace w' = trace w @ ok_calls cs @ [(c, Some e)] \<and>
             (\<forall>i<length cs. fault env (length (trace w) + i) = None) \<and>
             fault env (length (trace w) + length cs) = Some e)
      | Inr (a, w') \<Rightarrow>
          (\<exists>cs. trace w' = trace w @ ok_calls cs \<and>
             (\<forall>i<length cs. fault env (length (trace w) + i) = None))"
  proof (cases "m w")
    case (Inl ew)
    with m [unfolded logged_def, rule_format, of w] show ?thesis
      by (simp add: bindS_def)
  next
    case (Inr aw)
    obtain a w1 where aw: "aw = (a, w1)" by (cases aw)
    from m [unfolded logged_def, rule_format, of w] Inr aw
    obtain cs1 where t1: "trace w1 = trace w @ ok_calls cs1"
      and f1: "\<forall>i<length cs1. fault env (length (trace w) + i) = None"
      by auto
    have len: "length (trace w1) = length (trace w) + length cs1"
      by (simp add: t1)
    have nofault: "fault env (length (trace w) + i) = None"
      if "i < length cs1 + n2" "\<forall>j<n2. fault env (length (trace w1) + j) = None"
      for i n2
    proof (cases "i < length cs1")
      case True
      with f1 show ?thesis by simp
    next
      case False
      with that(1) have "i - length cs1 < n2" by simp
      with that(2) have "fault env (length (trace w1) + (i - length cs1)) = None" by simp
      with False show ?thesis by (simp add: len)
    qed
    show ?thesis
    proof (cases "f a w1")
      case (Inl ew)
      obtain e w' where ew: "ew = (e, w')" by (cases ew)
      from f [of a, unfolded logged_def, rule_format, of w1] Inl ew
      obtain cs2 c where t2: "trace w' = trace w1 @ ok_calls cs2 @ [(c, Some e)]"
        and f2: "\<forall>j<length cs2. fault env (length (trace w1) + j) = None"
        and f3: "fault env (length (trace w1) + length cs2) = Some e"
        by auto
      have "trace w' = trace w @ ok_calls (cs1 @ cs2) @ [(c, Some e)]"
        by (simp add: t1 t2)
      moreover have "\<forall>i<length (cs1 @ cs2). fault env (length (trace w) + i) = None"
        using nofault [OF _ f2] by simp
      moreover have "fault env (length (trace w) + length (cs1 @ cs2)) = Some e"
        using f3 by (simp add: len add.assoc)
      ultimately have "\<exists>cs c. trace w' = trace w @ ok_calls cs @ [(c, Some e)] \<and>
             (\<forall>i<length cs. fault env (length (trace w) + i) = None) \<and>
             fault env (length (trace w) + length cs) = Some e"
        by (intro exI [of _ "cs1 @ cs2"] exI [of _ c] conjI)
      then show ?thesis
        using Inr aw Inl ew by (simp only: bindS_def sum.case prod.case)
    next
      case (Inr bw)
      note fInr = this
      obtain b' w' where bw: "bw = (b', w')" by (cases bw)
      from f [of a, unfolded logged_def, rule_format, of w1] Inr bw
      obtain cs2 where t2: "trace w' = trace w1 @ ok_calls cs2"
        and f2: "\<forall>j<length cs2. fault env (length (trace w1) + j) = None"
        by auto
      have "trace w' = trace w @ ok_calls (cs1 @ cs2)"
        by (simp add: t1 t2)
      moreover have "\<forall>i<length (cs1 @ cs2). fault env (length (trace w) + i) = None"
        using nofault [OF _ f2] by simp
      ultimately have "\<exists>cs. trace w' = trace w @ ok_calls cs \<and>
             (\<forall>i<length cs. fault env (length (trace w) + i) = None)"
        by (intro exI [of _ "cs1 @ cs2"] conjI)
      then show ?thesis
        using \<open>m w = Inr aw\<close> aw fInr bw by (simp only: bindS_def sum.case prod.case)
    qed
  qed
qed


lemma logged_case_prod: "(\<And>a c. logged env (f a c)) \<Longrightarrow> logged env (case_prod f p)"
  by (cases p) simp

lemma logged_if: "logged env m \<Longrightarrow> logged env n \<Longrightarrow> logged env (if c then m else n)"
  by simp

lemma logged_for_loop:
  "(\<And>i a. logged env (body i a)) \<Longrightarrow> logged env (for_loop body xs a)"
  by (induction xs arbitrary: a) (auto intro: logged_returnS logged_bindS)

lemmas logged_intros =
  logged_returnS logged_gets logged_call logged_bindS logged_case_prod logged_if logged_for_loop
  logged_modify

lemma logged_nfm_forward: "logged env (nfm_forward env dev nfm x0 n)"
  unfolding nfm_forward_def by (intro logged_intros) simp

lemma logged_new_FCN: "logged env (new_FCN env layers)"
  unfolding new_FCN_def by (intro logged_intros) simp

lemma logged_flows_body: "logged env (flows_body env b0 i flows)"
  unfolding flows_body_def by (intro logged_intros logged_new_FCN)

lemma logged_cell2: "logged env (cell2 env)"
  unfolding cell2_def Let_def by (intro logged_intros logged_flows_body)

lemma logged_cell3: "logged env (cell3 env prior nfm dev)"
  unfolding cell3_def by (intro logged_intros logged_nfm_forward)

lemma logged_compute_loss: "logged env (compute_loss env ann it mq mp)"
  unfolding compute_loss_def by (intro logged_intros)

lemma logged_checkpoint: "logged env (checkpoint env g loss mq mp)"
  unfolding checkpoint_def by (intro logged_intros logged_nfm_forward) simp

lemma logged_train_iter: "logged env (train_iter env it g)"
  unfolding train_iter_def Let_def
  by (intro logged_intros logged_nfm_forward logged_compute_loss logged_checkpoint)

lemma logged_cell4: "logged env (cell4 env b0 prior q0 nfm dev z0 z_np0)"
  unfolding cell4_def train_setup_def train_loop_def plot_history_def
  by (intro logged_intros logged_train_iter)

lemma logged_cell5: "logged env (cell5 env g)"
  unfolding cell5_def by (intro logged_intros)

lemma logged_notebook: "logged env (notebook env)"
  unfolding notebook_def by (intro logged_intros logged_cell2 logged_cell3 logged_cell4 logged_cell5)


lemma for_loop_append:
  "for_loop body (xs @ ys) a w = bindS (for_loop body xs a) (for_loop body ys) w"
  by (induction xs arbitrary: a w) (auto simp: bindS_def returnS_def split: sum.splits)

lemma for_loop_upt_Suc:
  "for_loop body [0..<Suc n] a w = Inr (a', w') \<longleftrightarrow>
     (\<exists>a1 w1. for_loop body [0..<n] a w = Inr (a1, w1) \<and> body n a1 w1 = Inr (a', w'))"
  by (simp add: for_loop_append)

lemma for_loop_upt_invariant:
  assumes run: "for_loop body [0..<n] a w = Inr (a', w')"
    and init: "I 0 a w"
    and step: "\<And>i x u y v. i < n \<Longrightarrow> I i x u \<Longrightarrow> body i x u = Inr (y, v) \<Longrightarrow> I (Suc i) y v"
  shows "I n a' w'"
  using run step
proof (induction n arbitrary: a' w')
  case 0
  with init show ?case by simp
next
  case (Suc n)
  from Suc.prems(1) obtain a1 w1 where
    r1: "for_loop body [0..<n] a w = Inr (a1, w1)" and r2: "body n a1 w1 = Inr (a', w')"
    unfolding for_loop_upt_Suc by blast
  have "I n a1 w1"
    by (rule Suc.IH [OF r1]) (rule Suc.prems(2), simp_all)
  with r2 show ?case
    by (intro Suc.prems(2) [of n a1 w1]) simp_all
qed

lemmas iter_unfold = train_iter_def checkpoint_def compute_loss_def nfm_forward_def Let_def

lemma train_iter_frame:
  "train_iter env it g w = Inr (g', w') \<Longrightarrow>
     var_b g' = var_b g \<and> var_prior g' = var_prior g \<and> var_q0 g' = var_q0 g \<and> var_x g' = var_x g
     \<and> var_device g' = var_device g"
  by (auto simp: iter_unfold split: if_splits prod.splits)

lemma train_iter_hists:
  "train_iter env it g w = Inr (g', w') \<Longrightarrow>
     (\<exists>loss mq mp. var_loss g' = Some loss \<and> var_mean_log_q g' = Some mq \<and> var_mean_log_p g' = Some mp \<and>
       var_loss_hist g' = var_loss_hist g @ (if (it + 1) mod show_iter = 0 then [item loss] else []) \<and>
       var_log_q_hist g' = var_log_q_hist g @ (if (it + 1) mod show_iter = 0 then [item mq] else []) \<and>
       var_log_p_hist g' = var_log_p_hist g @ (if (it + 1) mod show_iter = 0 then [item mp] else []))"
  by (auto simp: iter_unfold split: if_splits prod.splits)


lemma train_iter_loss:
  "train_iter env it g w = Inr (g', w') \<Longrightarrow>
    (\<exists>loss lq lp. var_loss g' = Some loss \<and> var_log_q g' = Some lq \<and> var_log_p g' = Some lp \<and>
       item loss = fw_mean env lq - anneal_weight it * fw_mean env lp)"
  by (auto simp: iter_unfold annealing_def sub_def rmul_def torch_mean_def split: if_splits prod.splits)

lemma train_iter_cuda_states:
  "train_iter env it g w = Inr (g', w') \<Longrightarrow>
     concat (map (cuda_state_at_draw \<circ> fst) (trace w')) =
       concat (map (cuda_state_at_draw \<circ> fst) (trace w)) @
       (if (it + 1) mod show_iter = 0 then [fw_manual_seed env 0] else [])"
  by (auto simp: iter_unfold annealing_def cuda_state_at_draw_def num_samples_def
      split: if_splits prod.splits)

lemma train_iter_z:
  "train_iter env it g w = Inr (g', w') \<Longrightarrow> (it + 1) mod show_iter = 0 \<Longrightarrow>
     (\<exists>gens. var_z g' = draw env (var_nfm g') gens \<and> var_z_np g' = fw_numpy env (var_z g') \<and>
        snd gens = fw_manual_seed env 0)"
  by (auto simp: iter_unfold draw_def split_beta split: if_splits)

subsection \<open>The training loop\<close>

lemma logged_succeeds:
  assumes "logged env m" and "\<forall>k. fault env k = None"
  shows "\<exists>a w'. m w = Inr (a, w')"
proof (cases "m w")
  case (Inl ew)
  obtain e w' where "ew = (e, w')" by (cases ew)
  with assms(1) [unfolded logged_def, rule_format, of w] Inl assms(2)
  show ?thesis by auto
next
  case (Inr aw)
  then show ?thesis by (cases aw) simp
qed

lemma concat_replicate_Suc:
  "concat (replicate (Suc k) xs) = concat (replicate k xs) @ xs"
  by (induction k) simp_all

lemma logged_new_calls:
  assumes "logged env m" and "m w = Inr (a, w')"
  shows "trace w' = trace w @ new_calls w w'" and "list_all (\<lambda>c. snd c = None) (new_calls w w')"
proof -
  from assms(1) [unfolded logged_def, rule_format, of w] assms(2)
  obtain cs where t: "trace w' = trace w @ ok_calls cs" by auto
  then have n: "new_calls w w' = ok_calls cs" by (simp add: new_calls_def)
  show "trace w' = trace w @ new_calls w w'" by (simp add: n t)
  show "list_all (\<lambda>c. snd c = None) (new_calls w w')"
    by (simp add: n ok_calls_def list_all_iff)
qed

lemma train_loop_frame:
  assumes "train_loop env n g w = Inr (g', w')"
  shows "var_b g' = var_b g \<and> var_prior g' = var_prior g \<and> var_q0 g' = var_q0 g \<and>
         var_x g' = var_x g \<and> var_device g' = var_device g"
  by (rule for_loop_upt_invariant [OF assms [unfolded train_loop_def],
        where I = "\<lambda>i x u. var_b x = var_b g \<and> var_prior x = var_prior g \<and> var_q0 x = var_q0 g \<and>
         var_x x = var_x g \<and> var_device x = var_device g"])
     (use train_iter_frame in fastforce)+

lemma train_loop_hist_lengths:
  assumes "train_loop env n g w = Inr (g', w')"
  shows "length (var_loss_hist g') = length (var_loss_hist g) + n div show_iter \<and>
         length (var_log_q_hist g') = length (var_log_q_hist g) + n div show_iter \<and>
         length (var_log_p_hist g') = length (var_log_p_hist g) + n div show_iter"
proof (rule for_loop_upt_invariant [OF assms [unfolded train_loop_def],
        where I = "\<lambda>i x u. length (var_loss_hist x) = length (var_loss_hist g) + i div show_iter \<and>
         length (var_log_q_hist x) = length (var_log_q_hist g) + i div show_iter \<and>
         length (var_log_p_hist x) = length (var_log_p_hist g) + i div show_iter"])
  show "length (var_loss_hist g) = length (var_loss_hist g) + 0 div show_iter \<and>
    length (var_log_q_hist g) = length (var_log_q_hist g) + 0 div show_iter \<and>
    length (var_log_p_hist g) = length (var_log_p_hist g) + 0 div show_iter"
    by simp
next
  fix i x u y v
  assume inv: "length (var_loss_hist x) = length (var_loss_hist g) + i div show_iter \<and>
         length (var_log_q_hist x) = length (var_log_q_hist g) + i div show_iter \<and>
         length (var_log_p_hist x) = length (var_log_p_hist g) + i div show_iter"
    and it: "train_iter env i x u = Inr (y, v)"
  from train_iter_hists [OF it] inv
  show "length (var_loss_hist y) = length (var_loss_hist g) + Suc i div show_iter \<and>
         length (var_log_q_hist y) = length (var_log_q_hist g) + Suc i div show_iter \<and>
         length (var_log_p_hist y) = length (var_log_p_hist g) + Suc i div show_iter"
    by (auto simp: div_Suc)
qed


lemma train_loop_cuda_states:
  assumes "train_loop env n g w = Inr (g', w')"
  shows "concat (map (cuda_state_at_draw \<circ> fst) (trace w')) =
           concat (map (cuda_state_at_draw \<circ> fst) (trace w)) @
           replicate (n div show_iter) (fw_manual_seed env 0)"
proof (rule for_loop_upt_invariant [OF assms [unfolded train_loop_def],
        where I = "\<lambda>i x u. concat (map (cuda_state_at_draw \<circ> fst) (trace u)) =
           concat (map (cuda_state_at_draw \<circ> fst) (trace w)) @
           replicate (i div show_iter) (fw_manual_seed env 0)"])
  show "concat (map (cuda_state_at_draw \<circ> fst) (trace w)) =
           concat (map (cuda_state_at_draw \<circ> fst) (trace w)) @
           replicate (0 div show_iter) (fw_manual_seed env 0)"
    by simp
next
  fix i x u y v
  assume inv: "concat (map (cuda_state_at_draw \<circ> fst) (trace u)) =
           concat (map (cuda_state_at_draw \<circ> fst) (trace w)) @
           replicate (i div show_iter) (fw_manual_seed env 0)"
    and it: "train_iter env i x u = Inr (y, v)"
  from train_iter_cuda_states [OF it] inv
  show "concat (map (cuda_state_at_draw \<circ> fst) (trace v)) =
           concat (map (cuda_state_at_draw \<circ> fst) (trace w)) @
           replicate (Suc i div show_iter) (fw_manual_seed env 0)"
    by (simp add: div_Suc replicate_append_same)
qed

subsection \<open>The statements around the loop\<close>

lemma train_setup_Inr:
  "train_setup env b0 prior q0 nfm dev z0 z_np0 w = Inr (g0, w0) \<Longrightarrow>
     g0 = \<lparr>var_b = b0, var_prior = prior, var_q0 = q0, var_device = dev,
            var_x = replicate batch_size 0, var_nfm = nfm,
            var_optimizer = fw_Adam env nfm (1 / 1000) (1 / 1000), var_loss_hist = [],
            var_log_q_hist = [], var_log_p_hist = [], var_z = z0, var_z_np = z_np0,
            var_it = None, var_log_q = None, var_log_p = None, var_mean_log_q = None,
            var_mean_log_p = None, var_loss = None\<rparr> \<and>
     map (shape \<circ> fst) (trace w0) = map (shape \<circ> fst) (trace w) @ setup_calls dev"
  by (auto simp: train_setup_def setup_calls_def shape_def)

lemma plot_history_Inr:
  "plot_history env g w = Inr (g', w') \<Longrightarrow>
     g' = g \<and> trace w' = trace w @ ok_calls
       [Plt_figure 10 10, Plt_plot (var_loss_hist g) ''loss'', Plt_plot (var_log_q_hist g) ''log_q'',
        Plt_plot (var_log_p_hist g) ''log_p'', Plt_legend, Plt_show]"
  by (auto simp: plot_history_def)

lemma cell5_Inr:
  "cell5 env g w = Inr (g', w') \<Longrightarrow>
     g' = g\<lparr>var_z_np := fw_numpy env (var_z g)\<rparr> \<and> trace w' = trace w @ ok_calls
       [To_numpy, Plt_figure 10 10, Plt_hist2d (fw_numpy env (var_z g)) grid_size, Plt_show]"
  by (auto simp: cell5_def)

lemma toy_no_fault: "\<forall>k. fault toy k = None"
  by (simp add: toy_def)



lemma new_calls_filter:
  assumes "trace w' = trace w @ new_calls w w'"
    and "filter P (map f (trace w')) = filter P (map f (trace w)) @ xs"
  shows "filter P (map f (new_calls w w')) = xs"
proof -
  from assms
  have "filter P (map f (trace w)) @ filter P (map f (new_calls w w')) =
        filter P (map f (trace w)) @ xs"
    by (metis map_append filter_append)
  then show ?thesis by simp
qed

lemma logged_train_loop: "logged env (train_loop env n g)"
  unfolding train_loop_def by (intro logged_for_loop logged_train_iter)


lemmas toy_run = iter_unfold toy_def toy_globals_def start_def annealing_def show_iter_def
  batch_size_def num_samples_def split_beta generators_def set_generators_def

lemma np_min_pair: "np_min x [y] = min y x"
  by (simp add: np_min_def)

lemma anneal_weight_eq: "anneal_weight it = min 1 (1 / 100 + real it / 10000)"
  by (simp add: anneal_weight_def np_min_pair anneal_iter_def min.commute)

lemma anneal_weight_mono: "it \<le> it' \<Longrightarrow> anneal_weight it \<le> anneal_weight it'"
  unfolding anneal_weight_eq
  by (intro min.mono order_refl add_left_mono divide_right_mono) simp_all

lemma anneal_weight_le_1: "anneal_weight it \<le> 1"
  unfolding anneal_weight_eq by simp

lemma anneal_weight_saturated:
  "99 / 100 * real anneal_iter \<le> real it \<Longrightarrow> anneal_weight it = 1"
  unfolding anneal_weight_eq anneal_iter_def by simp

lemma anneal_weight_below:
  "real it < 99 / 100 * real anneal_iter \<Longrightarrow> anneal_weight it < 1"
  unfolding anneal_weight_eq anneal_iter_def by simp

lemma convex_combination_iff:
  "convex_combination v x y \<longleftrightarrow> (\<exists>a. 0 \<le> a \<and> a \<le> 1 \<and> v = a * x + (1 - a) * y)"
proof
  assume c: "convex_combination v x y"
  show "\<exists>a. 0 \<le> a \<and> a \<le> 1 \<and> v = a * x + (1 - a) * y"
  proof (cases "x = y")
    case True
    with c have "v = x" by (simp add: convex_combination_def)
    with True show ?thesis by (intro exI [of _ 0]) simp
  next
    case False
    define a where "a = (v - y) / (x - y)"
    from False have "a * (x - y) = v - y" by (simp add: a_def)
    then have v: "v = a * x + (1 - a) * y" by (simp add: algebra_simps)
    have "0 \<le> a \<and> a \<le> 1"
    proof (cases "x < y")
      case True
      with c have "x \<le> v" "v \<le> y" by (simp_all add: convex_combination_def)
      with True show ?thesis by (simp add: a_def divide_simps)
    next
      case False
      with \<open>x \<noteq> y\<close> have "y < x" by simp
      with c have "y \<le> v" "v \<le> x" by (simp_all add: convex_combination_def)
      with \<open>y < x\<close> show ?thesis by (simp add: a_def divide_simps)
    qed
    with v show ?thesis by blast
  qed
next
  assume "\<exists>a. 0 \<le> a \<and> a \<le> 1 \<and> v = a * x + (1 - a) * y"
  then obtain a where a: "0 \<le> a" "a \<le> 1" and v: "v = a * x + (1 - a) * y" by blast
  have v1: "v = y + a * (x - y)" and v2: "v = x + (1 - a) * (y - x)"
    by (simp_all add: v algebra_simps)
  show "convex_combination v x y"
  proof (cases "x \<le> y")
    case True
    with a have "a * (x - y) \<le> 0" "0 \<le> (1 - a) * (y - x)"
      by (simp_all add: mult_nonneg_nonpos)
    with v1 v2 True show ?thesis by (simp add: convex_combination_def)
  next
    case False
    with a have "0 \<le> a * (x - y)" "(1 - a) * (y - x) \<le> 0"
      by (simp_all add: mult_nonneg_nonpos)
    with v1 v2 False show ?thesis by (simp add: convex_combination_def)
  qed
qed


lemma train_loop_last:
  assumes "train_loop env (Suc n) g w = Inr (g', w')"
  shows "\<exists>g1 w1. train_loop env n g w = Inr (g1, w1) \<and> train_iter env n g1 w1 = Inr (g', w')"
  using assms unfolding train_loop_def for_loop_upt_Suc .

lemma train_loop_final_draw:
  assumes "train_loop env max_iter g w = Inr (g', w')"
  shows "\<exists>gens. var_z g' = draw env (var_nfm g') gens \<and>
           var_z_np g' = fw_numpy env (var_z g') \<and> snd gens = fw_manual_seed env 0"
proof -
  have m: "max_iter = Suc 19999" by (simp add: max_iter_def)
  from assms obtain g1 w1 where
    i: "train_iter env 19999 g1 w1 = Inr (g', w')"
    unfolding m by (blast dest: train_loop_last)
  have c: "(19999 + 1) mod show_iter = 0" by (simp add: show_iter_def)
  from train_iter_z [OF i c] show ?thesis .
qed

lemma new_calls_trans:
  assumes "trace w1 = trace w0 @ xs" and "trace w2 = trace w1 @ ys"
  shows "new_calls w0 w2 = xs @ ys"
  using assms by (simp add: new_calls_def)

lemma flows_body_Inr:
  "flows_body env b0 i flows w = Inr (flows', w') \<Longrightarrow>
     (\<exists>f. flows' = flows @ [f] \<and>
        flow_b f = (if i mod 2 = 0 then b0 else map (\<lambda>v. 1 - v) b0) \<and>
        net_layers (flow_s f) = [2, 8, 2] \<and> net_layers (flow_t f) = [2, 8, 2] \<and>
        net_id (flow_s f) = length (trace w) \<and> net_id (flow_t f) = Suc (length (trace w)) \<and>
        Suc (Suc (length (trace w))) \<le> length (trace w'))"
  by (auto simp: flows_body_def new_FCN_def split: if_splits)

lemma flows_inv_step:
  assumes inv: "flows_inv b0 i flows u" and run: "flows_body env b0 i flows u = Inr (flows', v)"
  shows "flows_inv b0 (Suc i) flows' v"
proof -
  from flows_body_Inr [OF run] obtain f where
    f: "flows' = flows @ [f]" and
    b: "flow_b f = (if i mod 2 = 0 then b0 else map (\<lambda>v. 1 - v) b0)" and
    l: "net_layers (flow_s f) = [2, 8, 2]" "net_layers (flow_t f) = [2, 8, 2]" and
    ids: "net_id (flow_s f) = length (trace u)" "net_id (flow_t f) = Suc (length (trace u))" and
    len: "Suc (Suc (length (trace u))) \<le> length (trace v)"
    by blast
  from inv have n: "length flows = i"
    and old: "\<forall>j<i. flow_b (flows ! j) = (if j mod 2 = 0 then b0 else map (\<lambda>v. 1 - v) b0) \<and>
        net_layers (flow_s (flows ! j)) = [2, 8, 2] \<and> net_layers (flow_t (flows ! j)) = [2, 8, 2]"
    and bound: "\<forall>k\<in>set (concat (map flow_nets flows)). k < length (trace u)"
    and dist: "distinct (concat (map flow_nets flows))"
    by (simp_all add: flows_inv_def)
  have 1: "length flows' = Suc i" by (simp add: f n)
  have 2: "flow_b (flows' ! j) = (if j mod 2 = 0 then b0 else map (\<lambda>v. 1 - v) b0) \<and>
        net_layers (flow_s (flows' ! j)) = [2, 8, 2] \<and> net_layers (flow_t (flows' ! j)) = [2, 8, 2]"
    if "j < Suc i" for j
  proof (cases "j < i")
    case True
    with old n show ?thesis by (simp add: f nth_append)
  next
    case False
    with that have "j = i" by simp
    with b l n show ?thesis by (simp add: f nth_append)
  qed
  have nets: "concat (map flow_nets flows') =
      concat (map flow_nets flows) @ [length (trace u), Suc (length (trace u))]"
    by (simp add: f flow_nets_def ids)
  have 3: "\<forall>k\<in>set (concat (map flow_nets flows')). k < length (trace v)"
  proof
    fix k
    assume "k \<in> set (concat (map flow_nets flows'))"
    then have "k \<in> set (concat (map flow_nets flows)) \<or> k = length (trace u) \<or>
        k = Suc (length (trace u))"
      unfolding nets by simp blast
    moreover have "k < length (trace u)" if "k \<in> set (concat (map flow_nets flows))"
      using bound that by blast
    ultimately show "k < length (trace v)"
      using len by linarith
  qed
  have fresh: "length (trace u) \<notin> set (concat (map flow_nets flows))"
    "Suc (length (trace u)) \<notin> set (concat (map flow_nets flows))"
  proof -
    show "length (trace u) \<notin> set (concat (map flow_nets flows))"
    proof
      assume "length (trace u) \<in> set (concat (map flow_nets flows))"
      with bound have "length (trace u) < length (trace u)" by blast
      then show False by simp
    qed
    show "Suc (length (trace u)) \<notin> set (concat (map flow_nets flows))"
    proof
      assume "Suc (length (trace u)) \<in> set (concat (map flow_nets flows))"
      with bound have "Suc (length (trace u)) < length (trace u)" by blast
      then show False by simp
    qed
  qed
  have 4: "distinct (concat (map flow_nets flows'))"
    unfolding nets using fresh dist by simp
  from 1 2 3 4 show ?thesis
    unfolding flows_inv_def by blast
qed

lemma flows_loop:
  assumes "for_loop (flows_body env b0) [0..<n] [] w = Inr (flows, w')"
  shows "flows_inv b0 n flows w'"
proof (rule for_loop_upt_invariant [OF assms, where I = "flows_inv b0"])
  show "flows_inv b0 0 [] w" by (simp add: flows_inv_def)
next
  fix i x u y v
  assume "flows_inv b0 i x u" and "flows_body env b0 i x u = Inr (y, v)"
  then show "flows_inv b0 (Suc i) y v" by (rule flows_inv_step)
qed

lemma flows_inv_later:
  assumes "flows_inv b0 n flows u" and "length (trace u) \<le> length (trace v)"
  shows "flows_inv b0 n flows v"
proof -
  have "k < length (trace v)" if "k \<in> set (concat (map flow_nets flows))" for k
  proof -
    from assms(1) that have "k < length (trace u)"
      unfolding flows_inv_def by blast
    with assms(2) show ?thesis by simp
  qed
  with assms(1) show ?thesis
    unfolding flows_inv_def by blast
qed

lemma cell2_Inr:
  assumes "cell2 env w = Inr ((b0, flows, prior, q0, nfm, dev), w')"
  shows "b0 = [0, 1]" and "flows_inv [0, 1] K flows w'"
    and "prior = \<lparr>modes_loc = 2, modes_scale = 1 / 10\<rparr>"
    and "q0 = \<lparr>gauss_loc = [0, 0], gauss_scale = [1, 1]\<rparr>"
    and "nfm = fw_module_to env (fw_NormalizingFlow env prior q0 flows) dev"
    and "dev = (if cuda_is_available env then Cuda else Cpu)"
proof -
  from assms obtain b1 w1 where
    c1: "call env (Torch_tensor [0, 1]) [0, 1] w = Inr (b1, w1)" and
    r1: "bindS (for_loop (flows_body env b1) [0..<K] []) (\<lambda>flows.
     bindS (call env (TwoModes_new 2 (1 / 10)) \<lparr>modes_loc = 2, modes_scale = 1 / 10\<rparr>) (\<lambda>prior.
     bindS (call env (Np_zeros 2) (replicate 2 0)) (\<lambda>zs.
     bindS (call env (Np_ones 2) (replicate 2 1)) (\<lambda>os.
     bindS (call env (ConstDiagGaussian_new zs os) \<lparr>gauss_loc = zs, gauss_scale = os\<rparr>) (\<lambda>q0.
     bindS (call env NormalizingFlow_new (fw_NormalizingFlow env prior q0 flows)) (\<lambda>nfm.
     bindS (call env Cuda_is_available (cuda_is_available env)) (\<lambda>avail.
     bindS (call env (Torch_device (if avail \<and> True then Cuda else Cpu))
              (if avail \<and> True then Cuda else Cpu)) (\<lambda>dev.
     bindS (call env (Module_to dev) (fw_module_to env nfm dev)) (\<lambda>nfm1.
     returnS (b1, flows, prior, q0, nfm1, dev)))))))))) w1 =
       Inr ((b0, flows, prior, q0, nfm, dev), w')"
    unfolding cell2_def Let_def bindS_Inr [of "call env (Torch_tensor [0, 1]) [0, 1]"] by blast
  from c1 have b1: "b1 = [0, 1]" by simp
  from r1 obtain fl w2 where
    l: "for_loop (flows_body env b1) [0..<K] [] w1 = Inr (fl, w2)" and
    r2: "bindS (call env (TwoModes_new 2 (1 / 10)) \<lparr>modes_loc = 2, modes_scale = 1 / 10\<rparr>) (\<lambda>prior.
     bindS (call env (Np_zeros 2) (replicate 2 0)) (\<lambda>zs.
     bindS (call env (Np_ones 2) (replicate 2 1)) (\<lambda>os.
     bindS (call env (ConstDiagGaussian_new zs os) \<lparr>gauss_loc = zs, gauss_scale = os\<rparr>) (\<lambda>q0.
     bindS (call env NormalizingFlow_new (fw_NormalizingFlow env prior q0 fl)) (\<lambda>nfm.
     bindS (call env Cuda_is_available (cuda_is_available env)) (\<lambda>avail.
     bindS (call env (Torch_device (if avail \<and> True then Cuda else Cpu))
              (if avail \<and> True then Cuda else Cpu)) (\<lambda>dev.
     bindS (call env (Module_to dev) (fw_module_to env nfm dev)) (\<lambda>nfm1.
     returnS (b1, fl, prior, q0, nfm1, dev))))))))) w2 =
       Inr ((b0, flows, prior, q0, nfm, dev), w')"
    unfolding bindS_Inr [of "for_loop (flows_body env b1) [0..<K] []"] by blast
  from r2 have rest: "b0 = b1" "flows = fl" "prior = \<lparr>modes_loc = 2, modes_scale = 1 / 10\<rparr>"
      "q0 = \<lparr>gauss_loc = [0, 0], gauss_scale = [1, 1]\<rparr>"
      "nfm = fw_module_to env (fw_NormalizingFlow env prior q0 flows) dev"
      "dev = (if cuda_is_available env then Cuda else Cpu)"
      "length (trace w2) \<le> length (trace w')"
    by (auto simp: numeral_2_eq_2)
  from flows_inv_later [OF flows_loop [OF l] rest(7)] b1 rest
  show "b0 = [0, 1]" and "flows_inv [0, 1] K flows w'"
    and "prior = \<lparr>modes_loc = 2, modes_scale = 1 / 10\<rparr>"
    and "q0 = \<lparr>gauss_loc = [0, 0], gauss_scale = [1, 1]\<rparr>"
    and "nfm = fw_module_to env (fw_NormalizingFlow env prior q0 flows) dev"
    and "dev = (if cuda_is_available env then Cuda else Cpu)"
    by simp_all
qed

lemma logged_run_facts:
  assumes l: "logged env m" and w: "trace w = []" and r: "r = m w"
  shows "(\<forall>i e. i < length (trace (world_of r)) \<and> snd (trace (world_of r) ! i) = Some e \<longrightarrow>
            raised r = Some e \<and> Suc i = length (trace (world_of r))) \<and>
         (\<forall>e. raised r = Some e \<longrightarrow>
            trace (world_of r) \<noteq> [] \<and> snd (last (trace (world_of r))) = Some e) \<and>
         (\<forall>i<length (trace (world_of r)). snd (trace (world_of r) ! i) = fault env i)"
proof (cases "m w")
  case (Inl ew)
  obtain e w' where ew: "ew = (e, w')" by (cases ew)
  from l [unfolded logged_def, rule_format, of w] Inl ew w
  obtain cs c where t: "trace w' = ok_calls cs @ [(c, Some e)]"
    and f1: "\<forall>i<length cs. fault env i = None"
    and f2: "fault env (length cs) = Some e"
    by auto
  have r': "world_of r = w'" "raised r = Some e"
    by (simp_all add: r Inl ew)
  have len: "length (trace w') = Suc (length cs)"
    by (simp add: t)
  have nth: "snd (trace w' ! i) = (if i < length cs then None else Some e)"
    if "i < Suc (length cs)" for i
    using that by (auto simp: t nth_append ok_calls_def less_Suc_eq)
  have lst: "trace w' \<noteq> []" "snd (last (trace w')) = Some e"
    by (simp_all add: t)
  show ?thesis
    unfolding r' len
    using f1 f2 lst by (auto simp: nth less_Suc_eq split: if_splits)
next
  case (Inr aw)
  obtain a w' where aw: "aw = (a, w')" by (cases aw)
  from l [unfolded logged_def, rule_format, of w] Inr aw w
  obtain cs where t: "trace w' = ok_calls cs"
    and f1: "\<forall>i<length cs. fault env i = None"
    by auto
  have r': "world_of r = w'" "raised r = None"
    by (simp_all add: r Inr aw)
  show ?thesis
    unfolding r' using f1 by (simp add: t ok_calls_def)
qed

lemma range_K: "[0..<K] = [0, 1, 2, 3, 4, 5, 6, 7]"
  by (simp add: K_def upt_rec)

lemma bindS_raises: "m w = Inl x \<Longrightarrow> bindS m f w = Inl x"
  by (simp add: bindS_def)

lemma bindS_returns: "m w = Inr (a, w1) \<Longrightarrow> bindS m f w = f a w1"
  by (simp add: bindS_def)

lemma train_iter_draws_shape:
  "train_iter env it g w = Inr (g', w') \<Longrightarrow>
     map shape (filter reseed_or_draw (map fst (trace w'))) =
       map shape (filter reseed_or_draw (map fst (trace w))) @
       (if (it + 1) mod show_iter = 0
        then [Cuda_manual_seed 0, Forward (var_device g) () () 512 512] else [])"
  by (auto simp: iter_unfold annealing_def reseed_or_draw_def num_samples_def shape_def
      split: if_splits prod.splits)

lemma train_loop_draws_shape:
  assumes "train_loop env n g w = Inr (g', w')"
  shows "map shape (filter reseed_or_draw (map fst (trace w'))) =
           map shape (filter reseed_or_draw (map fst (trace w))) @
           concat (replicate (n div show_iter)
             [Cuda_manual_seed 0, Forward (var_device g) () () 512 512])"
proof -
  let ?pair = "[Cuda_manual_seed 0, Forward (var_device g) () () 512 512] :: unit call list"
  have "map shape (filter reseed_or_draw (map fst (trace w'))) =
           map shape (filter reseed_or_draw (map fst (trace w))) @
           concat (replicate (n div show_iter) ?pair) \<and>
        var_device g' = var_device g"
  proof (rule for_loop_upt_invariant [OF assms [unfolded train_loop_def],
        where I = "\<lambda>i x u. map shape (filter reseed_or_draw (map fst (trace u))) =
           map shape (filter reseed_or_draw (map fst (trace w))) @
           concat (replicate (i div show_iter) ?pair) \<and>
           var_device x = var_device g"])
    show "map shape (filter reseed_or_draw (map fst (trace w))) =
           map shape (filter reseed_or_draw (map fst (trace w))) @
           concat (replicate (0 div show_iter) ?pair) \<and>
           var_device g = var_device g"
      by simp
  next
    fix i x u y v
    assume inv: "map shape (filter reseed_or_draw (map fst (trace u))) =
           map shape (filter reseed_or_draw (map fst (trace w))) @
           concat (replicate (i div show_iter) ?pair) \<and>
           var_device x = var_device g"
      and it: "train_iter env i x u = Inr (y, v)"
    note rep = concat_replicate_Suc [of _ ?pair]
    from train_iter_draws_shape [OF it] train_iter_frame [OF it] inv
    show "map shape (filter reseed_or_draw (map fst (trace v))) =
           map shape (filter reseed_or_draw (map fst (trace w))) @
           concat (replicate (Suc i div show_iter) ?pair) \<and>
           var_device y = var_device g"
      by (simp add: div_Suc rep del: replicate_Suc)
  qed
  then show ?thesis by simp
qed



lemma notebook_device:
  assumes "notebook env w = Inr (g, w')"
  shows "var_device g = (if cuda_is_available env then Cuda else Cpu)"
proof -
  from assms obtain a w1 where
    c2: "cell2 env w = Inr (a, w1)" and
    r2: "(case a of (b0, flows, prior, q0, nfm, dev) \<Rightarrow>
           bindS (cell3 env prior nfm dev) (\<lambda>(z0, z_np0).
           bindS (cell4 env b0 prior q0 nfm dev z0 z_np0) (\<lambda>g.
           cell5 env g))) w1 = Inr (g, w')"
    unfolding notebook_def bindS_Inr by blast
  obtain b0 flows prior q0 nfm dev where a: "a = (b0, flows, prior, q0, nfm, dev)"
    by (cases a)
  from cell2_Inr(6) [OF c2 [unfolded a]]
  have dev: "dev = (if cuda_is_available env then Cuda else Cpu)" .
  from r2 obtain zz w2 where
    r3: "(case zz of (z0, z_np0) \<Rightarrow>
           bindS (cell4 env b0 prior q0 nfm dev z0 z_np0) (\<lambda>g. cell5 env g)) w2 = Inr (g, w')"
    unfolding a prod.case bindS_Inr by blast
  obtain z0 z_np0 where zz: "zz = (z0, z_np0)" by (cases zz)
  from r3 obtain g4 w4 where
    c4: "cell4 env b0 prior q0 nfm dev z0 z_np0 w2 = Inr (g4, w4)" and
    c5: "cell5 env g4 w4 = Inr (g, w')"
    unfolding zz prod.case bindS_Inr by blast
  from c4 obtain g0 w0 g1 w1' where
    s: "train_setup env b0 prior q0 nfm dev z0 z_np0 w2 = Inr (g0, w0)" and
    l: "train_loop env max_iter g0 w0 = Inr (g1, w1')" and
    h: "plot_history env g1 w1' = Inr (g4, w4)"
    unfolding cell4_def by auto
  from train_setup_Inr [OF s] have "var_device g0 = dev" by simp
  with train_loop_frame [OF l] have "var_device g1 = dev" by simp
  with plot_history_Inr [OF h] have "var_device g4 = dev" by simp
  with cell5_Inr [OF c5] have "var_device g = dev" by simp
  with dev show ?thesis by simp
qed

section \<open>The properties\<close>

text \<open>
  C5. Scalar metrics are checkpointed exactly when \<open>it + 1\<close> is a multiple of
  \<open>show_iter = 500\<close>: such an iteration appends one value to each of \<^verbatim>\<open>loss_hist\<close>,
  \<^verbatim>\<open>log_q_hist\<close> and \<^verbatim>\<open>log_p_hist\<close>, any other iteration leaves the three unchanged.
  So after \<open>n\<close> iterations the three histories have the same length \<open>n div show_iter\<close>,
  and 40 entries each when the loop ends.
\<close>

theorem metric_histories:
  assumes "train_setup env b0 prior q0 nfm dev z0 z_np0 w = Inr (g0, w0)"
    and "train_loop env n g0 w0 = Inr (g, w1)"
  shows "show_iter = 500 \<and>
         length (var_loss_hist g) = n div show_iter \<and>
         length (var_log_q_hist g) = n div show_iter \<and>
         length (var_log_p_hist g) = n div show_iter \<and>
         (n = max_iter \<longrightarrow> length (var_loss_hist g) = 40 \<and> length (var_log_q_hist g) = 40 \<and>
            length (var_log_p_hist g) = 40) \<and>
         (\<forall>g' w2. train_iter env n g w1 = Inr (g', w2) \<longrightarrow>
            (\<exists>loss mq mp. var_loss g' = Some loss \<and> var_mean_log_q g' = Some mq \<and>
               var_mean_log_p g' = Some mp \<and>
               var_loss_hist g' =
                 var_loss_hist g @ (if (n + 1) mod show_iter = 0 then [item loss] else []) \<and>
               var_log_q_hist g' =
                 var_log_q_hist g @ (if (n + 1) mod show_iter = 0 then [item mq] else []) \<and>
               var_log_p_hist g' =
                 var_log_p_hist g @ (if (n + 1) mod show_iter = 0 then [item mp] else [])))"
proof -
  from train_setup_Inr [OF assms(1)]
  have empty: "var_loss_hist g0 = []" "var_log_q_hist g0 = []" "var_log_p_hist g0 = []"
    by simp_all
  from train_loop_hist_lengths [OF assms(2)] empty
  have len: "length (var_loss_hist g) = n div show_iter"
    "length (var_log_q_hist g) = n div show_iter"
    "length (var_log_p_hist g) = n div show_iter"
    by simp_all
  have "max_iter div show_iter = 40"
    by (simp add: max_iter_def show_iter_def)
  moreover have "show_iter = 500" by (simp add: show_iter_def)
  ultimately show ?thesis
    using len train_iter_hists [of env n g w1] by auto
qed

theorem metric_histories_witness:
  "\<exists>g0 w0 g w1.
     train_setup toy [0, 1] \<lparr>modes_loc = 2, modes_scale = 1 / 10\<rparr>
       \<lparr>gauss_loc = [0, 0], gauss_scale = [1, 1]\<rparr> 0 Cuda 0 0 (start 0 0) = Inr (g0, w0) \<and>
     train_loop toy max_iter g0 w0 = Inr (g, w1) \<and>
     length (var_loss_hist g) = 40 \<and> length (var_log_q_hist g) = 40 \<and>
     length (var_log_p_hist g) = 40"
proof -
  obtain g0 w0 where s: "train_setup toy [0, 1] \<lparr>modes_loc = 2, modes_scale = 1 / 10\<rparr>
       \<lparr>gauss_loc = [0, 0], gauss_scale = [1, 1]\<rparr> 0 Cuda 0 0 (start 0 0) = Inr (g0, w0)"
    by (simp add: train_setup_def toy_def start_def)
  have "logged toy (train_loop toy max_iter g0)"
    unfolding train_loop_def by (intro logged_for_loop logged_train_iter)
  from logged_succeeds [OF this toy_no_fault, of w0]
  obtain g w1 where l: "train_loop toy max_iter g0 w0 = Inr (g, w1)" by blast
  from metric_histories [OF s l] s l show ?thesis by blast
qed



text \<open>
  C10. Among the reseedings and the 512-sample draws of the loop, each checkpoint first
  calls \<^verbatim>\<open>torch.cuda.manual_seed(0)\<close> and then draws its 512 samples, and every one of these
  draws finds the CUDA generator in the state that seed 0 gives, the same at all
  checkpoints. The samples of a checkpoint are the draw of the current model from that
  state; on a CUDA device, where the forward pass draws from the CUDA generator alone, they
  are a function of the model parameters and nothing else.
\<close>

theorem checkpoint_draws_reseeded:
  "(train_loop env n g w = Inr (g', w') \<longrightarrow>
      map shape (filter reseed_or_draw (map fst (new_calls w w'))) =
        concat (replicate (n div show_iter)
          [Cuda_manual_seed 0, Forward (var_device g) () () 512 512]) \<and>
      concat (map (cuda_state_at_draw \<circ> fst) (new_calls w w')) =
        replicate (n div show_iter) (fw_manual_seed env 0)) \<and>
   (train_iter env it g1 w1 = Inr (g2, w2) \<and> (it + 1) mod show_iter = 0 \<longrightarrow>
      (\<exists>c. var_z g2 = draw env (var_nfm g2) (c, fw_manual_seed env 0))) \<and>
   (samples_from_cuda env \<and> train_iter env it g1 w1 = Inr (g2, w2) \<and>
    (it + 1) mod show_iter = 0 \<longrightarrow>
      (\<forall>c. var_z g2 = draw env (var_nfm g2) (c, fw_manual_seed env 0)))"
proof -
  have draws: "\<exists>c. var_z g2 = draw env (var_nfm g2) (c, fw_manual_seed env 0)"
    if "train_iter env it g1 w1 = Inr (g2, w2)" "(it + 1) mod show_iter = 0"
  proof -
    from train_iter_z [OF that] obtain gens where
      "var_z g2 = draw env (var_nfm g2) gens" "snd gens = fw_manual_seed env 0"
      by blast
    then have "var_z g2 = draw env (var_nfm g2) (fst gens, fw_manual_seed env 0)"
      by (metis prod.collapse)
    then show ?thesis ..
  qed
  have same: "draw env m (c, s) = draw env m (c', s)" if "samples_from_cuda env" for m c c' s
    using that unfolding samples_from_cuda_def draw_def by (metis (no_types))
  show ?thesis
  proof (intro conjI impI allI)
    assume run: "train_loop env n g w = Inr (g', w')"
    note nc = logged_new_calls [OF logged_train_loop run]
    have "map shape (filter reseed_or_draw (map fst (trace w'))) =
        map shape (filter reseed_or_draw (map fst (trace w))) @
        map shape (filter reseed_or_draw (map fst (new_calls w w')))"
      by (subst nc(1)) simp
    with train_loop_draws_shape [OF run]
    show "map shape (filter reseed_or_draw (map fst (new_calls w w'))) =
          concat (replicate (n div show_iter)
            [Cuda_manual_seed 0, Forward (var_device g) () () 512 512])"
      by simp
    have "concat (map (cuda_state_at_draw \<circ> fst) (trace w')) =
        concat (map (cuda_state_at_draw \<circ> fst) (trace w)) @
        concat (map (cuda_state_at_draw \<circ> fst) (new_calls w w'))"
      by (subst nc(1)) simp
    with train_loop_cuda_states [OF run]
    show "concat (map (cuda_state_at_draw \<circ> fst) (new_calls w w')) =
          replicate (n div show_iter) (fw_manual_seed env 0)"
      by simp
  next
    assume "train_iter env it g1 w1 = Inr (g2, w2) \<and> (it + 1) mod show_iter = 0"
    then have "train_iter env it g1 w1 = Inr (g2, w2)" and "(it + 1) mod show_iter = 0"
      by simp_all
    then show "\<exists>c. var_z g2 = draw env (var_nfm g2) (c, fw_manual_seed env 0)"
      by (rule draws)
  next
    fix c
    assume a: "samples_from_cuda env \<and> train_iter env it g1 w1 = Inr (g2, w2) \<and>
      (it + 1) mod show_iter = 0"
    then have "train_iter env it g1 w1 = Inr (g2, w2)" and "(it + 1) mod show_iter = 0"
      by simp_all
    from draws [OF this]
    obtain c' where z: "var_z g2 = draw env (var_nfm g2) (c', fw_manual_seed env 0)" ..
    from a have "samples_from_cuda env" by simp
    from same [OF this]
    have "draw env (var_nfm g2) (c', fw_manual_seed env 0) =
        draw env (var_nfm g2) (c, fw_manual_seed env 0)" .
    with z show "var_z g2 = draw env (var_nfm g2) (c, fw_manual_seed env 0)"
      by simp
  qed
qed

theorem checkpoint_draws_reseeded_witness:
  "(\<exists>g' w'. train_loop toy max_iter toy_globals (start 0 0) = Inr (g', w') \<and>
      concat (map (cuda_state_at_draw \<circ> fst) (new_calls (start 0 0) w')) = replicate 40 1000) \<and>
   samples_from_cuda toy \<and>
   (\<exists>g2 w2. train_iter toy 499 toy_globals (start 0 0) = Inr (g2, w2) \<and>
      (499 + 1) mod show_iter = 0 \<and> var_z g2 = draw toy (var_nfm g2) (77, 1000))"
proof -
  have nf: "\<forall>k. fault toy k = None" by (simp add: toy_def)
  from logged_succeeds [OF logged_train_loop nf]
  obtain g' w' where r: "train_loop toy max_iter toy_globals (start 0 0) = Inr (g', w')"
    by blast
  have k: "max_iter div show_iter = 40" by (simp add: max_iter_def show_iter_def)
  have s: "fw_manual_seed toy 0 = 1000" by (simp add: toy_def)
  from checkpoint_draws_reseeded [of toy max_iter toy_globals "start 0 0" g' w'] r
  have 1: "concat (map (cuda_state_at_draw \<circ> fst) (new_calls (start 0 0) w')) = replicate 40 1000"
    unfolding k s by blast
  have 2: "samples_from_cuda toy"
    by (simp add: samples_from_cuda_def toy_def)
  have "\<exists>g2 w2. train_iter toy 499 toy_globals (start 0 0) = Inr (g2, w2)"
    by (simp add: toy_run)
  then obtain g2 w2 where i: "train_iter toy 499 toy_globals (start 0 0) = Inr (g2, w2)"
    by blast
  have c: "(499 + 1) mod show_iter = 0" by (simp add: show_iter_def)
  have p: "samples_from_cuda toy \<and> train_iter toy 499 toy_globals (start 0 0) = Inr (g2, w2) \<and>
      (499 + 1) mod show_iter = 0"
    using 2 i c by simp
  note t = checkpoint_draws_reseeded [of toy 0 toy_globals "start 0 0" toy_globals "start 0 0"
      499 toy_globals "start 0 0" g2 w2]
  have "\<forall>c. var_z g2 = draw toy (var_nfm g2) (c, fw_manual_seed toy 0)"
    by (rule mp [OF t [THEN conjunct2, THEN conjunct2] p])
  then have 3: "var_z g2 = draw toy (var_nfm g2) (77, 1000)"
    unfolding s by (rule spec)
  from r 1 have A: "\<exists>g' w'. train_loop toy max_iter toy_globals (start 0 0) = Inr (g', w') \<and>
      concat (map (cuda_state_at_draw \<circ> fst) (new_calls (start 0 0) w')) = replicate 40 1000"
    by (intro exI [of _ g'] exI [of _ w'] conjI)
  from i c 3 have B: "\<exists>g2 w2. train_iter toy 499 toy_globals (start 0 0) = Inr (g2, w2) \<and>
      (499 + 1) mod show_iter = 0 \<and> var_z g2 = draw toy (var_nfm g2) (77, 1000)"
    by (intro exI [of _ g2] exI [of _ w2] conjI)
  from A 2 B show ?thesis by (intro conjI)
qed

text \<open>
  C1 (as amended). The loss of an iteration is not a convex combination of the two terms:
  it is the weighted difference \<open>mean(log_q) - c * mean(log_p)\<close>, where the weight \<open>c\<close>
  depends on the iteration count alone: \<open>c = min 1 (0.01 + it / 10000)\<close> with annealing
  enabled (as the notebook has it) and \<open>c = 1\<close> with annealing disabled.
\<close>

theorem loss_is_annealed_difference:
  "(compute_loss env ann it mq mp w = Inr (loss, w') \<longrightarrow>
      item loss =
        (if ann then item mq - min 1 (1 / 100 + real it / 10000) * item mp
         else item mq - item mp)) \<and>
   (train_iter env it g w = Inr (g', w'') \<longrightarrow>
      (\<exists>loss' lq lp. var_loss g' = Some loss' \<and> var_log_q g' = Some lq \<and> var_log_p g' = Some lp \<and>
         item loss' = fw_mean env lq - min 1 (1 / 100 + real it / 10000) * fw_mean env lp))"
proof (intro conjI impI)
  assume "compute_loss env ann it mq mp w = Inr (loss, w')"
  then show "item loss =
        (if ann then item mq - min 1 (1 / 100 + real it / 10000) * item mp
         else item mq - item mp)"
    by (auto simp: compute_loss_def sub_def rmul_def anneal_weight_eq split: if_splits)
next
  assume "train_iter env it g w = Inr (g', w'')"
  from train_iter_loss [OF this]
  show "\<exists>loss' lq lp. var_loss g' = Some loss' \<and> var_log_q g' = Some lq \<and> var_log_p g' = Some lp \<and>
         item loss' = fw_mean env lq - min 1 (1 / 100 + real it / 10000) * fw_mean env lp"
    by (simp add: anneal_weight_eq)
qed

theorem loss_is_annealed_difference_witness:
  "\<exists>loss w'. compute_loss toy True 5000 \<lparr>item = 3, grad_fn = Leaf 0\<rparr> \<lparr>item = 2, grad_fn = Leaf 1\<rparr>
       (start 0 0) = Inr (loss, w') \<and> item loss = 3 - 51 / 100 * 2"
proof -
  have "\<exists>loss w'. compute_loss toy True 5000 \<lparr>item = 3, grad_fn = Leaf 0\<rparr>
      \<lparr>item = 2, grad_fn = Leaf 1\<rparr> (start 0 0) = Inr (loss, w')"
    by (simp add: compute_loss_def toy_def start_def)
  then obtain loss w' where r: "compute_loss toy True 5000 \<lparr>item = 3, grad_fn = Leaf 0\<rparr>
      \<lparr>item = 2, grad_fn = Leaf 1\<rparr> (start 0 0) = Inr (loss, w')"
    by blast
  from loss_is_annealed_difference [of toy True 5000 "\<lparr>item = 3, grad_fn = Leaf 0\<rparr>"
      "\<lparr>item = 2, grad_fn = Leaf 1\<rparr>" "start 0 0" loss w'] r
  have "item loss = 3 - 51 / 100 * 2" by simp
  with r show ?thesis by blast
qed

text \<open>
  Against C1 as stated: the loss at iteration 0 for \<open>mean(log_q) = 0\<close> and
  \<open>mean(log_p) = 1\<close> is \<open>- 0.01\<close>, which does not lie between the two terms.
\<close>

theorem loss_not_convex_combination:
  "map_option item (value_of (compute_loss toy True 0 \<lparr>item = 0, grad_fn = Leaf 0\<rparr>
       \<lparr>item = 1, grad_fn = Leaf 1\<rparr> (start 0 0))) = Some (- 1 / 100) \<and>
   \<not> convex_combination (- 1 / 100) 0 1"
  by (simp add: compute_loss_def toy_def start_def bindS_def call_def sub_def rmul_def
      anneal_weight_eq convex_combination_def)

text \<open>
  C3. With annealing enabled the weight \<open>min(1, 0.01 + it / anneal_iter)\<close> of the target
  term is monotonically non-decreasing in \<open>it\<close>, never exceeds 1, equals 1 exactly from
  \<open>it = 0.99 * anneal_iter = 9900\<close> on, and so reaches its maximum within the first half
  of the \<open>max_iter = 20000\<close> iterations.
\<close>

theorem anneal_weight_saturates:
  "(it \<le> it' \<longrightarrow> anneal_weight it \<le> anneal_weight it') \<and>
   anneal_weight it \<le> 1 \<and>
   (99 / 100 * real anneal_iter \<le> real it \<longrightarrow> anneal_weight it = 1) \<and>
   (real it < 99 / 100 * real anneal_iter \<longrightarrow> anneal_weight it < 1) \<and>
   anneal_iter = 10000 \<and> max_iter = 20000 \<and>
   anneal_weight 9900 = 1 \<and> 9900 < max_iter div 2"
proof (intro conjI impI)
  show "anneal_weight 9900 = 1"
    by (rule anneal_weight_saturated) (simp add: anneal_iter_def)
  show "9900 < max_iter div 2" by (simp add: max_iter_def)
qed (simp_all add: anneal_weight_mono anneal_weight_le_1 anneal_weight_saturated
      anneal_weight_below anneal_iter_def max_iter_def)

theorem anneal_weight_saturates_witness:
  "(0::nat) \<le> 5000 \<and> anneal_weight 0 \<le> anneal_weight 5000 \<and>
   99 / 100 * real anneal_iter \<le> real (12000::nat) \<and> anneal_weight 12000 = 1 \<and>
   real (5000::nat) < 99 / 100 * real anneal_iter \<and> anneal_weight 5000 < 1"
proof -
  have h1: "(0::nat) \<le> 5000" by simp
  have h2: "99 / 100 * real anneal_iter \<le> real (12000::nat)" by (simp add: anneal_iter_def)
  have h3: "real (5000::nat) < 99 / 100 * real anneal_iter" by (simp add: anneal_iter_def)
  from anneal_weight_saturates [of 0 5000] h1
  have c1: "anneal_weight 0 \<le> anneal_weight 5000" by blast
  from anneal_weight_saturates [of 12000 12000] h2
  have c2: "anneal_weight 12000 = 1" by blast
  from anneal_weight_saturates [of 5000 5000] h3
  have c3: "anneal_weight 5000 < 1" by blast
  from h1 h2 h3 c1 c2 c3 show ?thesis by blast
qed




text \<open>
  The proviso on the framework is needed: with an optimizer step that moves the base mean
  it holds, one iteration changes the base distribution of the model, from mean
  \<open>[7, 0]\<close> to mean \<open>[8, 0]\<close>, while the variable \<^verbatim>\<open>q0\<close> keeps what it was bound to.
\<close>

lemma frame_rests_on_the_framework:
  "\<not> keeps_held toy_drifting \<and>
   held_q0 (fw_held toy_drifting (var_nfm toy_globals)) =
     \<lparr>gauss_loc = [7, 0], gauss_scale = [1, 1]\<rparr> \<and>
   map_option (\<lambda>g. held_q0 (fw_held toy_drifting (var_nfm g)))
     (value_of (train_iter toy_drifting 0 toy_globals (start 0 0))) =
     Some \<lparr>gauss_loc = [8, 0], gauss_scale = [1, 1]\<rparr> \<and>
   map_option var_q0 (value_of (train_iter toy_drifting 0 toy_globals (start 0 0))) =
     Some (var_q0 toy_globals)"
proof -
  have "fw_held toy_drifting (snd (fw_step toy_drifting 0 0)) \<noteq> fw_held toy_drifting 0"
    by (simp add: toy_drifting_def toy_def)
  then have "\<not> keeps_held toy_drifting"
    unfolding keeps_held_def by blast
  then show ?thesis
    by (simp add: toy_drifting_def toy_run bindS_def call_def gets_def modify_def returnS_def)
qed

text \<open>
  C6 (as amended). After the training loop the script draws no new samples. The
  statements that follow the loop are the plot of the histories and, in the last cell,
  the conversion and the histogram of the variable \<^verbatim>\<open>z\<close> as the loop left it: the
  samples of the last checkpoint, drawn inside iteration 19999 after its optimizer step,
  hence from the model with its final parameters (with the CUDA generator in the state of
  seed 0). The last cell leaves the model untouched.
\<close>

theorem final_plot_shows_last_checkpoint:
  assumes "train_loop env max_iter g0 w0 = Inr (g1, w1)"
    and "plot_history env g1 w1 = Inr (g2, w2)"
    and "cell5 env g2 w2 = Inr (g3, w3)"
  shows "map fst (new_calls w1 w3) =
           [Plt_figure 10 10, Plt_plot (var_loss_hist g1) ''loss'',
            Plt_plot (var_log_q_hist g1) ''log_q'', Plt_plot (var_log_p_hist g1) ''log_p'',
            Plt_legend, Plt_show,
            To_numpy, Plt_figure 10 10, Plt_hist2d (fw_numpy env (var_z g1)) grid_size, Plt_show] \<and>
         \<not> list_ex is_forward (map fst (new_calls w1 w3)) \<and>
         (\<exists>gens. var_z g1 = draw env (var_nfm g1) gens \<and>
            snd gens = fw_manual_seed env 0) \<and>
         var_nfm g3 = var_nfm g1 \<and> var_z g3 = var_z g1"
proof -
  from plot_history_Inr [OF assms(2)] have g2: "g2 = g1"
    and t2: "trace w2 = trace w1 @ ok_calls
       [Plt_figure 10 10, Plt_plot (var_loss_hist g1) ''loss'', Plt_plot (var_log_q_hist g1) ''log_q'',
        Plt_plot (var_log_p_hist g1) ''log_p'', Plt_legend, Plt_show]"
    by simp_all
  from cell5_Inr [OF assms(3)] g2 have g3: "g3 = g1\<lparr>var_z_np := fw_numpy env (var_z g1)\<rparr>"
    and t3: "trace w3 = trace w2 @ ok_calls
       [To_numpy, Plt_figure 10 10, Plt_hist2d (fw_numpy env (var_z g1)) grid_size, Plt_show]"
    by simp_all
  have calls: "map fst (new_calls w1 w3) =
           [Plt_figure 10 10, Plt_plot (var_loss_hist g1) ''loss'',
            Plt_plot (var_log_q_hist g1) ''log_q'', Plt_plot (var_log_p_hist g1) ''log_p'',
            Plt_legend, Plt_show,
            To_numpy, Plt_figure 10 10, Plt_hist2d (fw_numpy env (var_z g1)) grid_size, Plt_show]"
    unfolding new_calls_trans [OF t2 t3] by simp
  have "\<not> list_ex is_forward (map fst (new_calls w1 w3))"
    unfolding calls by (simp add: is_forward_def)
  with calls train_loop_final_draw [OF assms(1)] g3 show ?thesis
    by auto
qed

theorem final_plot_shows_last_checkpoint_witness:
  "\<exists>g1 w1 g2 w2 g3 w3.
     train_loop toy max_iter toy_globals (start 0 0) = Inr (g1, w1) \<and>
     plot_history toy g1 w1 = Inr (g2, w2) \<and>
     cell5 toy g2 w2 = Inr (g3, w3) \<and>
     \<not> list_ex is_forward (map fst (new_calls w1 w3)) \<and>
     (\<exists>c. var_z g1 = draw toy (var_nfm g1) (c, 1000))"
proof -
  have nf: "\<forall>k. fault toy k = None" by (simp add: toy_def)
  from logged_succeeds [OF logged_train_loop nf]
  obtain g1 w1 where r1: "train_loop toy max_iter toy_globals (start 0 0) = Inr (g1, w1)"
    by blast
  have "logged toy (plot_history toy g1)"
    unfolding plot_history_def by (intro logged_intros)
  from logged_succeeds [OF this nf]
  obtain g2 w2 where r2: "plot_history toy g1 w1 = Inr (g2, w2)" by blast
  from logged_succeeds [OF logged_cell5 nf]
  obtain g3 w3 where r3: "cell5 toy g2 w2 = Inr (g3, w3)" by blast
  have d: "fw_manual_seed toy 0 = 1000"
    by (simp add: toy_def)
  from final_plot_shows_last_checkpoint [OF r1 r2 r3]
  obtain gens where n: "\<not> list_ex is_forward (map fst (new_calls w1 w3))"
    and z: "var_z g1 = draw toy (var_nfm g1) gens" and g: "snd gens = 1000"
    unfolding d by blast
  from z g have "var_z g1 = draw toy (var_nfm g1) (fst gens, 1000)"
    by (metis prod.collapse)
  with n r1 r2 r3 show ?thesis by blast
qed

text \<open>
  Against C6 as stated: the statements after the loop, started on the concrete framework
  with \<^verbatim>\<open>z = 3\<close> and the model at 7 (whose samples are at least 7), make no forward
  pass, and the histogram shows the \<^verbatim>\<open>z\<close> they were given.
\<close>

theorem no_resampling_after_training:
  "raised (bindS (plot_history toy toy_globals) (cell5 toy) (start 0 0)) = None \<and>
   map fst (trace (world_of (bindS (plot_history toy toy_globals) (cell5 toy) (start 0 0)))) =
     [Plt_figure 10 10, Plt_plot [] ''loss'', Plt_plot [] ''log_q'', Plt_plot [] ''log_p'',
      Plt_legend, Plt_show, To_numpy, Plt_figure 10 10, Plt_hist2d 3 200, Plt_show] \<and>
   var_z toy_globals = 3 \<and> var_nfm toy_globals = 7"
  by (simp add: plot_history_def cell5_def toy_def toy_globals_def start_def grid_size_def
      bindS_def call_def returnS_def)

text \<open>
  C2. Model assembly builds exactly \<open>K = 8\<close> layers. Layer \<open>i\<close> has the mask
  \<open>b = [0, 1]\<close> when \<open>i\<close> is even and \<open>1 - b = [1, 0]\<close> when \<open>i\<close> is odd, and its scale and
  translation networks have the layer sizes \<open>[2, 8, 2]\<close>. The sixteen networks are
  sixteen different objects: each layer gets two freshly constructed ones.
\<close>

theorem flows_alternate_mask:
  assumes "cell2 env w = Inr ((b0, flows, prior, q0, nfm, dev), w')"
  shows "K = 8 \<and> length flows = 8 \<and>
         (\<forall>i<8. flow_b (flows ! i) = (if even i then [0, 1] else [1, 0]) \<and>
            net_layers (flow_s (flows ! i)) = [2, 8, 2] \<and>
            net_layers (flow_t (flows ! i)) = [2, 8, 2]) \<and>
         distinct (concat (map (\<lambda>f. [net_id (flow_s f), net_id (flow_t f)]) flows)) \<and>
         length (concat (map (\<lambda>f. [net_id (flow_s f), net_id (flow_t f)]) flows)) = 16"
proof -
  from cell2_Inr(2) [OF assms] have inv: "flows_inv [0, 1] 8 flows w'"
    by (simp add: K_def)
  have nets: "(\<lambda>f. [net_id (flow_s f), net_id (flow_t f)]) = (flow_nets :: 'a MaskedAffineFlow \<Rightarrow> nat list)"
    by (simp add: flow_nets_def fun_eq_iff)
  from inv have "length flows = 8" by (simp add: flows_inv_def)
  then have "length (concat (map flow_nets flows)) = 16"
    by (simp add: length_concat flow_nets_def comp_def sum_list_triv)
  with inv show ?thesis
    unfolding nets by (simp add: flows_inv_def K_def even_iff_mod_2_eq_zero)
qed

theorem flows_alternate_mask_witness:
  "\<exists>b0 flows prior q0 nfm dev w'.
     cell2 toy (start 0 0) = Inr ((b0, flows, prior, q0, nfm, dev), w') \<and>
     length flows = 8 \<and> flow_b (flows ! 0) = [0, 1] \<and> flow_b (flows ! 1) = [1, 0] \<and>
     flow_b (flows ! 7) = [1, 0] \<and> net_layers (flow_s (flows ! 7)) = [2, 8, 2]"
proof -
  have nf: "\<forall>k. fault toy k = None" by (simp add: toy_def)
  from logged_succeeds [OF logged_cell2 nf, of "start 0 0"]
  obtain a w' where ra: "cell2 toy (start 0 0) = Inr (a, w')" by blast
  obtain b0 flows prior q0 nfm dev where "a = (b0, flows, prior, q0, nfm, dev)"
    by (cases a)
  with ra have r: "cell2 toy (start 0 0) = Inr ((b0, flows, prior, q0, nfm, dev), w')"
    by simp
  from flows_alternate_mask [OF r]
  have "length flows = 8 \<and> flow_b (flows ! 0) = [0, 1] \<and> flow_b (flows ! 1) = [1, 0] \<and>
     flow_b (flows ! 7) = [1, 0] \<and> net_layers (flow_s (flows ! 7)) = [2, 8, 2]"
    by simp
  with r show ?thesis by blast
qed

text \<open>
  C8 (as amended). The notebook handles no error. In a run from the top, the outcomes in
  the trace are the ones the fault schedule gives; a delegated call that raises is the
  last call of the run, and the exception it raises is the outcome of the whole script:
  nothing is called after it, so there is no recovery and no retry. Conversely the script
  ends with an exception only when its last delegated call raised it. A missing
  accelerator is no such failure: the script asks \<^verbatim>\<open>torch.cuda.is_available()\<close> and runs on
  the CPU when the answer is no, so that a run in which no call raises returns with or
  without CUDA.
\<close>

theorem errors_propagate:
  assumes "r = notebook env (start g_cpu g_cuda)"
  shows "(\<forall>i e. i < length (trace (world_of r)) \<and> snd (trace (world_of r) ! i) = Some e \<longrightarrow>
            raised r = Some e \<and> Suc i = length (trace (world_of r))) \<and>
         (\<forall>e. raised r = Some e \<longrightarrow>
            trace (world_of r) \<noteq> [] \<and> snd (last (trace (world_of r))) = Some e) \<and>
         (\<forall>i<length (trace (world_of r)). snd (trace (world_of r) ! i) = fault env i) \<and>
         (\<forall>g. value_of r = Some g \<longrightarrow>
            var_device g = (if cuda_is_available env then Cuda else Cpu)) \<and>
         ((\<forall>k. fault env k = None) \<longrightarrow> raised r = None)"
proof -
  have 1: "(\<forall>i e. i < length (trace (world_of r)) \<and> snd (trace (world_of r) ! i) = Some e \<longrightarrow>
            raised r = Some e \<and> Suc i = length (trace (world_of r))) \<and>
         (\<forall>e. raised r = Some e \<longrightarrow>
            trace (world_of r) \<noteq> [] \<and> snd (last (trace (world_of r))) = Some e) \<and>
         (\<forall>i<length (trace (world_of r)). snd (trace (world_of r) ! i) = fault env i)"
    by (rule logged_run_facts [OF logged_notebook _ assms]) (simp add: start_def)
  have 2: "var_device g = (if cuda_is_available env then Cuda else Cpu)"
    if "value_of r = Some g" for g
  proof -
    from that obtain w' where "r = Inr (g, w')"
      by (cases r) auto
    with assms have "notebook env (start g_cpu g_cuda) = Inr (g, w')" by simp
    then show ?thesis by (rule notebook_device)
  qed
  have 3: "raised r = None" if "\<forall>k. fault env k = None"
  proof -
    from logged_succeeds [OF logged_notebook that, of "start g_cpu g_cuda"] assms
    obtain g w' where "r = Inr (g, w')" by auto
    then show ?thesis by simp
  qed
  from 1 2 3 show ?thesis by blast
qed

theorem errors_propagate_witness:
  "raised (notebook (toy_raising 6) (start 0 0)) = Some (FrameworkError 1) \<and>
   map fst (trace (world_of (notebook (toy_raising 6) (start 0 0)))) =
     [Torch_tensor [0, 1], FCN_new [2, 8, 2], FCN_new [2, 8, 2], MaskedAffineFlow_new [0, 1],
      FCN_new [2, 8, 2], FCN_new [2, 8, 2], Rsub 1 [0, 1]] \<and>
   snd (last (trace (world_of (notebook (toy_raising 6) (start 0 0))))) = Some (FrameworkError 1) \<and>
   fault (toy_raising 6) 6 = Some (FrameworkError 1)"
proof -
  have c2: "cell2 (toy_raising 6) (start 0 0) =
     Inl (FrameworkError 1, \<lparr>cpu_gen = 4, cuda_gen = 0, trace =
       [(Torch_tensor [0, 1], None), (FCN_new [2, 8, 2], None), (FCN_new [2, 8, 2], None),
        (MaskedAffineFlow_new [0, 1], None), (FCN_new [2, 8, 2], None), (FCN_new [2, 8, 2], None),
        (Rsub 1 [0, 1], Some (FrameworkError 1))]\<rparr>)"
    by (simp add: cell2_def range_K flows_body_def new_FCN_def bindS_def call_def gets_def
        modify_def returnS_def toy_raising_def toy_def start_def generators_def
        set_generators_def)
  have ev: "notebook (toy_raising 6) (start 0 0) =
     Inl (FrameworkError 1, \<lparr>cpu_gen = 4, cuda_gen = 0, trace =
       [(Torch_tensor [0, 1], None), (FCN_new [2, 8, 2], None), (FCN_new [2, 8, 2], None),
        (MaskedAffineFlow_new [0, 1], None), (FCN_new [2, 8, 2], None), (FCN_new [2, 8, 2], None),
        (Rsub 1 [0, 1], Some (FrameworkError 1))]\<rparr>)"
    unfolding notebook_def by (rule bindS_raises) (rule c2)
  have f: "fault (toy_raising 6) 6 = Some (FrameworkError 1)"
    by (simp add: toy_raising_def)
  from errors_propagate [OF refl, of "toy_raising 6" 0 0] ev f
  show ?thesis by simp
qed

text \<open>
  Against C8 as stated: on the concrete framework without CUDA the accelerator is missing,
  yet no error leaves the script; it runs to its end on the CPU.
\<close>

theorem missing_accelerator_is_no_failure:
  "cuda_is_available toy_without_cuda = False \<and>
   raised (notebook toy_without_cuda (start 0 0)) = None \<and>
   map_option var_device (value_of (notebook toy_without_cuda (start 0 0))) = Some Cpu"
proof -
  have c: "cuda_is_available toy_without_cuda = False"
    by (simp add: toy_without_cuda_def)
  have "\<forall>k. fault toy_without_cuda k = None"
    by (simp add: toy_without_cuda_def toy_def)
  from logged_succeeds [OF logged_notebook this, of "start 0 0"]
  obtain g w' where r: "notebook toy_without_cuda (start 0 0) = Inr (g, w')" by blast
  from notebook_device [OF r] c have "var_device g = Cpu" by simp
  with r c show ?thesis by simp
qed

text \<open>
  C9. The base distribution that cell 2 hands to the model is the two-dimensional
  diagonal Gaussian with mean \<open>[0, 0]\<close> and standard deviation \<open>[1, 1]\<close>: a sample is the
  standard normal noise itself, and the log-density at \<open>[z1, z2]\<close> is
  \<open>- ln (2 * pi) - z1\<^sup>2 / 2 - z2\<^sup>2 / 2\<close>.
\<close>

theorem base_distribution_standard_gaussian:
  assumes "cell2 env w = Inr ((b0, flows, prior, q0, nfm, dev), w')"
  shows "length (gauss_loc q0) = 2 \<and> gauss_loc q0 = [0, 0] \<and> gauss_scale q0 = [1, 1] \<and>
         nfm = fw_module_to env (fw_NormalizingFlow env prior q0 flows) dev \<and>
         (\<forall>e1 e2. gauss_sample q0 [e1, e2] = [e1, e2]) \<and>
         (\<forall>z1 z2. gauss_log_prob q0 [z1, z2] = - ln (2 * pi) - z1\<^sup>2 / 2 - z2\<^sup>2 / 2)"
  using cell2_Inr(4,5) [OF assms]
  by (simp add: gauss_sample_def gauss_log_prob_def)

theorem base_distribution_standard_gaussian_witness:
  "\<exists>b0 flows prior q0 nfm dev w'.
     cell2 toy (start 0 0) = Inr ((b0, flows, prior, q0, nfm, dev), w') \<and>
     gauss_loc q0 = [0, 0] \<and> gauss_scale q0 = [1, 1] \<and>
     gauss_sample q0 [3, 4] = [3, 4] \<and> gauss_log_prob q0 [0, 0] = - ln (2 * pi)"
proof -
  have nf: "\<forall>k. fault toy k = None" by (simp add: toy_def)
  from logged_succeeds [OF logged_cell2 nf, of "start 0 0"]
  obtain a w' where ra: "cell2 toy (start 0 0) = Inr (a, w')" by blast
  obtain b0 flows prior q0 nfm dev where "a = (b0, flows, prior, q0, nfm, dev)"
    by (cases a)
  with ra have r: "cell2 toy (start 0 0) = Inr ((b0, flows, prior, q0, nfm, dev), w')"
    by simp
  from base_distribution_standard_gaussian [OF r]
  have "gauss_loc q0 = [0, 0] \<and> gauss_scale q0 = [1, 1] \<and>
     gauss_sample q0 [3, 4] = [3, 4] \<and> gauss_log_prob q0 [0, 0] = - ln (2 * pi)"
    by simp
  with r show ?thesis by blast
qed

end
